theory Spec2Isabelle
  imports Complex_Main "HOL-Library.Word" "HOL-Library.Sublist"
begin

section \<open>C strings\<close>

text \<open>
  A C string is modelled by the list of its bytes before the terminating NUL, so
  \<open>strlen\<close> is \<open>length\<close>.  Reading at the position of the terminator gives the NUL
  byte; the code never reads further.
\<close>

type_synonym cstring = string

definition NUL :: char where
  "NUL = CHR 0x00"

definition cchar :: "cstring \<Rightarrow> nat \<Rightarrow> char" where
  \<comment> \<open>\<open>s[i]\<close> for \<open>i \<le> strlen(s)\<close>\<close>
  "cchar s i = (if i < length s then s ! i else NUL)"

definition strncmp_ne :: "cstring \<Rightarrow> cstring \<Rightarrow> nat \<Rightarrow> bool" where
  \<comment> \<open>\<open>strncmp(a, b, n) != 0\<close>: the first \<open>n\<close> bytes differ, the terminators included\<close>
  "strncmp_ne a b n = (take n (a @ [NUL]) \<noteq> take n (b @ [NUL]))"

section \<open>\<open>do_strsplit\<close>, the branch for a fixed non-empty split string\<close>

text \<open>
  The body of the loop over the elements of \<open>x\<close> in the \<open>fixed_opt\<close> branch, after
  \<open>buf\<close> and \<open>split\<close> have been translated.  Pointers into \<open>buf\<close> are offsets.
\<close>

definition split_skip :: "cstring \<Rightarrow> cstring \<Rightarrow> nat \<Rightarrow> bool" where
  \<comment> \<open>the test that makes both scanning loops \<open>continue\<close>\<close>
  "split_skip split buf bufp =
     (let slen = length split in
        (slen = 1 \<and> cchar buf bufp \<noteq> cchar split 0) \<or>
        (slen > 1 \<and> strncmp_ne (drop bufp buf) split slen))"

function split_count :: "cstring \<Rightarrow> cstring \<Rightarrow> nat \<Rightarrow> nat \<Rightarrow> nat \<Rightarrow> nat \<times> nat" where
  \<comment> \<open>"find out how many splits there will be": returns \<open>(ntok, laststart)\<close>\<close>
  "split_count split buf bufp ntok laststart =
     (if bufp < length buf then
        (if split_skip split buf bufp then split_count split buf (bufp + 1) ntok laststart
         else
           let bufp' = bufp + nat (max (int (length split) - 1) 0)
           in split_count split buf (bufp' + 1) (ntok + 1) (bufp' + 1))
      else (ntok, laststart))"
  by pat_completeness auto
termination
  by (relation "measure (\<lambda>(split, buf, bufp, ntok, laststart). length buf - bufp)") auto

function split_scan :: "cstring \<Rightarrow> cstring \<Rightarrow> nat \<Rightarrow> nat \<Rightarrow> (cstring \<times> nat) option" where
  \<comment> \<open>the inner \<open>for\<close> of the filling pass: the token written to \<open>pt\<close> and the new
      \<open>laststart\<close>, or \<open>None\<close> when the scan reaches \<open>ebuf\<close> without a match\<close>
  "split_scan split buf bufp laststart =
     (if bufp < length buf then
        (if split_skip split buf bufp then split_scan split buf (bufp + 1) laststart
         else
           let pt = (if length split \<noteq> 0 then take (bufp - laststart) (drop laststart buf)
                     else [cchar buf bufp]);
               bufp' = bufp + nat (max (int (length split) - 1) 0)
           in Some (pt, bufp' + 1))
      else None)"
  by pat_completeness auto
termination
  by (relation "measure (\<lambda>(split, buf, bufp, laststart). length buf - bufp)") auto

fun split_fill :: "cstring \<Rightarrow> cstring \<Rightarrow> nat \<Rightarrow> nat \<Rightarrow> nat \<Rightarrow> cstring list \<Rightarrow> cstring list \<times> nat" where
  \<comment> \<open>the outer \<open>for (j = 0; j < ntok; j++)\<close>; the first argument counts the iterations
      left, and \<open>bufp = laststart\<close> holds at the head of every iteration\<close>
  "split_fill split buf 0 j laststart t = (t, laststart)"
| "split_fill split buf (Suc k) j laststart t =
     (case split_scan split buf laststart laststart of
        None \<Rightarrow> split_fill split buf k (j + 1) laststart t
      | Some (pt, laststart') \<Rightarrow> split_fill split buf k (j + 1) laststart' (t[j := pt]))"

definition strsplit_fixed :: "cstring \<Rightarrow> cstring \<Rightarrow> cstring list" where
  \<comment> \<open>the tokens stored in the element \<open>t\<close> of the answer; \<open>allocVector(STRSXP, n)\<close> gives
      \<open>n\<close> empty strings\<close>
  "strsplit_fixed split buf =
     (let (ntok, laststart) = split_count split buf 0 0 0;
          t0 = replicate (ntok + (if cchar buf laststart \<noteq> NUL then 1 else 0)) [];
          (t, bufp) = split_fill split buf ntok 0 0 t0
      in if cchar buf bufp \<noteq> NUL then t[ntok := drop bufp buf] else t)"

section \<open>Text elements, conditions and the host runtime\<close>

text \<open>
  Modelled from the spec: the text element of the vector runtime (\<open>Defn.h\<close> is not part
  of the sources at hand).  A text element is the distinguished missing value or a byte
  sequence with one encoding tag; the macros \<open>IS_ASCII\<close>, \<open>IS_UTF8\<close>, \<open>IS_LATIN1\<close> and
  \<open>IS_BYTES\<close> read the tag, and all of them are false of the missing value.
\<close>

datatype encoding = Unknown | Latin1 | Utf8 | Bytes | Ascii

datatype charsxp = NA_STRING | CHARSXP cstring encoding

fun IS_ASCII :: "charsxp \<Rightarrow> bool" where
  "IS_ASCII (CHARSXP s e) = (e = Ascii)"
| "IS_ASCII NA_STRING = False"

fun IS_UTF8 :: "charsxp \<Rightarrow> bool" where
  "IS_UTF8 (CHARSXP s e) = (e = Utf8)"
| "IS_UTF8 NA_STRING = False"

fun IS_LATIN1 :: "charsxp \<Rightarrow> bool" where
  "IS_LATIN1 (CHARSXP s e) = (e = Latin1)"
| "IS_LATIN1 NA_STRING = False"

fun IS_BYTES :: "charsxp \<Rightarrow> bool" where
  "IS_BYTES (CHARSXP s e) = (e = Bytes)"
| "IS_BYTES NA_STRING = False"

fun R_CHAR :: "charsxp \<Rightarrow> cstring" where
  \<comment> \<open>the macro \<open>CHAR\<close>: the bytes of an element; the missing value holds \<open>NA\<close>\<close>
  "R_CHAR (CHARSXP s e) = s"
| "R_CHAR NA_STRING = ''NA''"

text \<open>Errors abort the call; warnings are collected in the order they are signalled.\<close>

datatype error =
    InvalidArgument string          \<comment> \<open>invalid '%s' argument\<close>
  | NonCharacterArgument            \<comment> \<open>non-character argument\<close>
  | PatternInvalidUTF8              \<comment> \<open>'pattern' is invalid UTF-8\<close>
  | ReplacementInvalidUTF8          \<comment> \<open>'replacement' is invalid UTF-8\<close>
  | PatternInvalidLocale            \<comment> \<open>'pattern' is invalid in this locale\<close>
  | ReplacementInvalidLocale        \<comment> \<open>'replacement' is invalid in this locale\<close>
  | RegexInvalidUTF8                \<comment> \<open>regular expression is invalid UTF-8\<close>
  | RegexInvalidLocale              \<comment> \<open>regular expression is invalid in this locale\<close>
  | ZeroLengthPattern               \<comment> \<open>zero-length pattern\<close>
  | InputInvalidUTF8 nat            \<comment> \<open>input string %d is invalid UTF-8\<close>
  | InputInvalidLocale nat          \<comment> \<open>input string %d is invalid in this locale\<close>
  | InvalidRegex                    \<comment> \<open>invalid regular expression ...\<close>
  | RegcompError                    \<comment> \<open>regcomp error: '%s'\<close>
  | ResultTooLong                   \<comment> \<open>result string is too long\<close>

datatype warning =
    ArgumentIgnored string          \<comment> \<open>argument '%s' will be ignored\<close>
  | OnlyFirstUsed string            \<comment> \<open>argument '%s' has length > 1 and only the first ...\<close>
  | InputWarnUTF8 nat               \<comment> \<open>input string %d is invalid UTF-8\<close>
  | InputWarnLocale nat             \<comment> \<open>input string %d is invalid in this locale\<close>
  | OutOfMemory nat                 \<comment> \<open>Out-of-memory error in regexp matching for element %d\<close>
  | PcreExecError int nat           \<comment> \<open>PCRE error ... for element %d\<close>
  | TreCompileError                 \<comment> \<open>TRE pattern compilation error '%s'\<close>
  | PcreCompileError                \<comment> \<open>PCRE pattern compilation error ...\<close>
  | InfiniteEmptyMatch              \<comment> \<open>pattern matches an empty string infinitely, ...\<close>
  | JitStackInvalid                 \<comment> \<open>R_PCRE_JIT_STACK_MAXSIZE invalid and ignored\<close>

type_synonym wstring = "nat list"   \<comment> \<open>a \<open>wchar_t\<close> string before its terminator\<close>

type_synonym regmatch_t = "int \<times> int"   \<comment> \<open>\<open>rm_so\<close>, \<open>rm_eo\<close>\<close>

text \<open>
  A compiled pattern is identified with what it was compiled from.  The matching engines
  (TRE, PCRE2) and the encoding services of the runtime are not part of the sources at
  hand; they are the parameters of the model, collected in a record.  The exec functions
  return the engine's return code and the match vector it filled in.
\<close>

datatype regex_t = Regex cstring int | WRegex wstring int   \<comment> \<open>pattern and \<open>cflags\<close>\<close>

record pcre2_code =
  pc_pattern :: cstring
  pc_utf :: bool
  pc_caseless :: bool

record host =
  mbcslocale :: bool
  utf8locale :: bool
  latin1locale :: bool
  translateChar :: "charsxp \<Rightarrow> cstring"
  translateCharUTF8 :: "charsxp \<Rightarrow> cstring"
  wtransChar :: "charsxp \<Rightarrow> wstring"
  utf8Valid :: "cstring \<Rightarrow> bool"
  mbcsValid :: "cstring \<Rightarrow> bool"
  utf8clen :: "char \<Rightarrow> int"
  Mbrtowc :: "cstring \<Rightarrow> int"
  wcstoutf8 :: "wstring \<Rightarrow> cstring"
  utf8towcs :: "cstring \<Rightarrow> int \<times> wstring"
  towctrans :: "bool \<Rightarrow> nat \<Rightarrow> nat"     \<comment> \<open>\<open>True\<close>: toupper, \<open>False\<close>: tolower\<close>
  toupper :: "char \<Rightarrow> char"
  tolower :: "char \<Rightarrow> char"
  markKnown :: "cstring \<Rightarrow> charsxp \<Rightarrow> charsxp"
  tre_regcompb :: "cstring \<Rightarrow> int \<Rightarrow> int"
  tre_regwcomp :: "wstring \<Rightarrow> int \<Rightarrow> int"
  tre_regexecb :: "regex_t \<Rightarrow> cstring \<Rightarrow> nat \<Rightarrow> int \<Rightarrow> int \<times> regmatch_t list"
  tre_regwexec :: "regex_t \<Rightarrow> wstring \<Rightarrow> nat \<Rightarrow> int \<Rightarrow> int \<times> regmatch_t list"
  pcre2_compile :: "cstring \<Rightarrow> bool \<Rightarrow> bool \<Rightarrow> bool"   \<comment> \<open>pattern, UTF, caseless: success\<close>
  pcre2_match :: "pcre2_code \<Rightarrow> cstring \<Rightarrow> nat \<Rightarrow> int \<Rightarrow> int \<times> nat list"
  tre_regncompb :: "8 word list \<Rightarrow> int \<Rightarrow> int"
  tre_regnexecb :: "8 word list \<times> int \<Rightarrow> 8 word list \<Rightarrow> int \<Rightarrow> int \<times> regmatch_t"

definition REG_EXTENDED :: int where "REG_EXTENDED = 1"
definition REG_ICASE :: int where "REG_ICASE = 2"
definition REG_NOSUB :: int where "REG_NOSUB = 8"
definition REG_LITERAL :: int where "REG_LITERAL = 16"
definition REG_NOTBOL :: int where "REG_NOTBOL = 1"
definition REG_ESPACE :: int where "REG_ESPACE = 12"
definition PCRE2_NOTBOL :: int where "PCRE2_NOTBOL = 1"
definition PCRE2_ERROR_NOMATCH :: int where "PCRE2_ERROR_NOMATCH = -1"
definition INT_MAX :: int where "INT_MAX = 2147483647"

text \<open>
  Modelled from the spec: \<open>mkChar\<close> and \<open>mkCharCE\<close> of the runtime build a text element
  from bytes and an encoding; bytes that are all ASCII get the tag \<open>Ascii\<close>.
\<close>

definition mkCharCE :: "cstring \<Rightarrow> encoding \<Rightarrow> charsxp" where
  "mkCharCE s e = CHARSXP s (if (\<forall>c \<in> set s. (of_char c :: nat) < 128) then Ascii else e)"

definition mkChar :: "cstring \<Rightarrow> charsxp" where
  "mkChar s = mkCharCE s Unknown"

definition mkCharW :: "host \<Rightarrow> wstring \<Rightarrow> charsxp" where
  "mkCharW h wc = mkCharCE (wcstoutf8 h wc) Utf8"

definition regmatch_at :: "regmatch_t list \<Rightarrow> nat \<Rightarrow> regmatch_t" where
  \<comment> \<open>\<open>regmatch[k]\<close>; an entry the engine did not fill is unset\<close>
  "regmatch_at regmatch k = (if k < length regmatch then regmatch ! k else (-1, -1))"

definition celem :: "'a \<Rightarrow> 'a list \<Rightarrow> int \<Rightarrow> 'a" where
  \<comment> \<open>\<open>s[i]\<close> for an \<open>int\<close> index; the first argument is the terminator, read at the end
      of the string\<close>
  "celem z s i = (if nat i < length s then s ! nat i else z)"

definition cslice :: "'a \<Rightarrow> 'a list \<Rightarrow> int \<Rightarrow> int \<Rightarrow> 'a list" where
  \<comment> \<open>the elements copied by \<open>for (i = a; i < b; i++) *t++ = s[i]\<close>\<close>
  "cslice z s a b = map (celem z s) [a..b - 1]"

section \<open>Literal search in bytes: \<open>fgrep_one_bytes\<close>\<close>

fun scan_byte :: "char \<Rightarrow> cstring \<Rightarrow> int \<Rightarrow> int" where
  \<comment> \<open>\<open>for (i = 0, p = target; *p; p++, i++) if (*p == pat[0]) return i; return -1;\<close>\<close>
  "scan_byte c [] i = -1"
| "scan_byte c (x # p) i = (if x = c then i else scan_byte c p (i + 1))"

function fgrep_skip :: "(cstring \<Rightarrow> int) \<Rightarrow> cstring \<Rightarrow> cstring \<Rightarrow> int \<Rightarrow> nat \<Rightarrow> int" where
  \<comment> \<open>the three loops \<open>for (ib = 0; ib <= len-plen; ...)\<close> of \<open>fgrep_one_bytes\<close>; they
      differ only in \<open>used\<close>, the number of bytes to skip after a failed comparison\<close>
  "fgrep_skip used pat target len ib =
     (if int ib \<le> len - int (length pat) then
        (if \<not> strncmp_ne pat (drop ib target) (length pat) then int ib
         else if used (drop ib target) \<le> 0 then -1
         else fgrep_skip used pat target len (ib + nat (used (drop ib target))))
      else -1)"
  by pat_completeness auto
termination
  by (relation "measure (\<lambda>(used, pat, target, len, ib). nat (len + 1 - int ib))") auto

definition fgrep_one_bytes :: "host \<Rightarrow> cstring \<Rightarrow> cstring \<Rightarrow> int \<Rightarrow> bool \<Rightarrow> bool \<Rightarrow> int" where
  "fgrep_one_bytes h pat target len useBytes use_UTF8 =
     (let plen = length pat in
      if plen = 0 then 0
      else if plen = 1 \<and> (useBytes \<or> \<not> (mbcslocale h \<or> use_UTF8))
        then scan_byte (cchar pat 0) target 0
      else if \<not> useBytes \<and> use_UTF8
        then fgrep_skip (\<lambda>t. utf8clen h (cchar t 0)) pat target len 0
      else if \<not> useBytes \<and> mbcslocale h
        then fgrep_skip (Mbrtowc h) pat target len 0
      else fgrep_skip (\<lambda>t. 1) pat target len 0)"

text \<open>
  \<open>fgrep_one\<close> returns the position of the match in characters.  \<open>do_grep\<close> passes
  \<open>NULL\<close> for the out-parameter \<open>next\<close>, which is not modelled.
\<close>

function fgrep_chars :: "(cstring \<Rightarrow> int) \<Rightarrow> cstring \<Rightarrow> cstring \<Rightarrow> int \<Rightarrow> nat \<Rightarrow> int \<Rightarrow> int" where
  \<comment> \<open>\<open>for (ib = 0, i = 0; ib <= len-plen; i++)\<close>: \<open>ib\<close> counts bytes, \<open>i\<close> characters\<close>
  "fgrep_chars used pat target len ib i =
     (if int ib \<le> len - int (length pat) then
        (if \<not> strncmp_ne pat (drop ib target) (length pat) then i
         else if used (drop ib target) \<le> 0 then -1
         else fgrep_chars used pat target len (ib + nat (used (drop ib target))) (i + 1))
      else -1)"
  by pat_completeness auto
termination
  by (relation "measure (\<lambda>(used, pat, target, len, ib, i). nat (len + 1 - int ib))") auto

definition fgrep_one :: "host \<Rightarrow> cstring \<Rightarrow> cstring \<Rightarrow> bool \<Rightarrow> bool \<Rightarrow> int" where
  "fgrep_one h pat target useBytes use_UTF8 =
     (let plen = length pat; len = int (length target) in
      if plen = 0 then 0
      else if plen = 1 \<and> (useBytes \<or> \<not> (mbcslocale h \<or> use_UTF8))
        then scan_byte (cchar pat 0) target 0
      else if \<not> useBytes \<and> use_UTF8
        then fgrep_chars (\<lambda>t. utf8clen h (cchar t 0)) pat target len 0 0
      else if \<not> useBytes \<and> mbcslocale h
        then fgrep_chars (Mbrtowc h) pat target len 0 0
      else fgrep_chars (\<lambda>t. 1) pat target len 0 0)"

section \<open>Replacement text: \<open>string_adj\<close>, \<open>count_subs\<close>, \<open>R_pcre_string_adj\<close>\<close>

text \<open>
  \<open>string_adj\<close> and \<open>wstring_adj\<close> (and \<open>count_subs\<close>, \<open>wcount_subs\<close>) are the same code
  over \<open>char\<close> and over \<open>wchar_t\<close>; the model is written once, over any character type
  with its code function and its terminator.  The functions return what they append to
  the target.  Code 92 is the backslash, 49 to 57 are the digits 1 to 9.
\<close>

fun string_adj :: "('c \<Rightarrow> nat) \<Rightarrow> 'c \<Rightarrow> 'c list \<Rightarrow> 'c list \<Rightarrow> regmatch_t list \<Rightarrow> 'c list" where
  "string_adj code z orig [] regmatch = []"
| "string_adj code z orig [c] regmatch = (if code c = 92 then [] else [c])"
| "string_adj code z orig (c # d # p) regmatch =
     (if code c = 92 then
        (if 49 \<le> code d \<and> code d \<le> 57 then
           cslice z orig (fst (regmatch_at regmatch (code d - 48)))
                         (snd (regmatch_at regmatch (code d - 48)))
           @ string_adj code z orig p regmatch
         else d # string_adj code z orig p regmatch)
      else c # string_adj code z orig (d # p) regmatch)"

fun count_subs :: "('c \<Rightarrow> nat) \<Rightarrow> 'c list \<Rightarrow> int" where
  "count_subs code [] = 0"
| "count_subs code [c] = 0"
| "count_subs code (c # d # p) =
     (if code c = 92 then
        (if 49 \<le> code d \<and> code d \<le> 57 then 1 + count_subs code p else count_subs code p)
      else count_subs code (d # p))"

definition PCRE2_UNSET :: nat where
  "PCRE2_UNSET = 2 ^ 64 - 1"

definition ovec_at :: "nat list \<Rightarrow> nat \<Rightarrow> nat" where
  "ovec_at ovec i = (if i < length ovec then ovec ! i else PCRE2_UNSET)"

fun R_pcre_string_adj ::
  "host \<Rightarrow> cstring \<Rightarrow> cstring \<Rightarrow> nat list \<Rightarrow> bool \<Rightarrow> int \<Rightarrow> bool \<Rightarrow> bool \<Rightarrow> cstring" where
  \<comment> \<open>the last two arguments are the locals \<open>upper\<close> and \<open>lower\<close>, both false at the call;
      \<open>nb\<close> is computed in \<open>uint64_t\<close>\<close>
  "R_pcre_string_adj h orig [] ovec use_UTF8 ncap upper lower = []"
| "R_pcre_string_adj h orig [c] ovec use_UTF8 ncap upper lower =
     (if c = CHR 0x5C then [] else [c])"
| "R_pcre_string_adj h orig (c # d # p) ovec use_UTF8 ncap upper lower =
     (if c = CHR 0x5C then
        (if 49 \<le> (of_char d :: nat) \<and> (of_char d :: nat) \<le> 57 then
           (let k = (of_char d :: nat) - 48 in
            if int k \<ge> ncap then R_pcre_string_adj h orig p ovec use_UTF8 ncap upper lower
            else
              (let nb = (ovec_at ovec (2 * k + 1) + 2 ^ 64 - ovec_at ovec (2 * k)) mod 2 ^ 64 in
               if nb > 0 \<and> use_UTF8 \<and> (upper \<or> lower) then
                 (let xi = cslice NUL orig (int (ovec_at ovec (2 * k))) (int (ovec_at ovec (2 * k) + nb));
                      (nc, wc) = utf8towcs h xi
                  in if nc \<ge> 0 then wcstoutf8 h (map (towctrans h upper) wc) else [])
               else
                 map (\<lambda>c. if upper then toupper h c else if lower then tolower h c else c)
                   (cslice NUL orig (int (ovec_at ovec (2 * k))) (int (ovec_at ovec (2 * k + 1)))))
              @ R_pcre_string_adj h orig p ovec use_UTF8 ncap upper lower)
         else if d = CHR ''U'' then R_pcre_string_adj h orig p ovec use_UTF8 ncap True False
         else if d = CHR ''L'' then R_pcre_string_adj h orig p ovec use_UTF8 ncap False True
         else if d = CHR ''E'' then R_pcre_string_adj h orig p ovec use_UTF8 ncap False False
         else d # R_pcre_string_adj h orig p ovec use_UTF8 ncap upper lower)
      else c # R_pcre_string_adj h orig (d # p) ovec use_UTF8 ncap upper lower)"

section \<open>\<open>do_gsub\<close>: one element of the text vector\<close>

text \<open>
  What \<open>do_gsub\<close> stores for an element: the element itself, the missing value, or a new
  string built in \<open>cbuf\<close>.
\<close>

datatype 'c gsub_out = KeepElt | NaElt | NewElt "'c list"

subsection \<open>The fixed dialect\<close>

partial_function (option) gsub_fixed_fill ::
  "host \<Rightarrow> cstring \<Rightarrow> cstring \<Rightarrow> bool \<Rightarrow> bool \<Rightarrow> bool \<Rightarrow> cstring \<Rightarrow> int \<Rightarrow> int \<Rightarrow> cstring
   \<Rightarrow> cstring option" where
  \<comment> \<open>the \<open>do ... while\<close> that fills \<open>cbuf\<close>, then \<open>strcpy(u, s)\<close>; \<open>s\<close> is the rest of
      the subject, \<open>u\<close> the bytes written so far.  The loop does not advance when
      \<open>st + patlen = 0\<close>.\<close>
  "gsub_fixed_fill h spat srep global useBytes use_UTF8 s slen st u =
     (let u1 = u @ take (nat st) s;
          s1 = drop (nat (st + int (length spat))) s;
          slen1 = slen - (st + int (length spat));
          u2 = u1 @ srep
      in if global \<and> fgrep_one_bytes h spat s1 slen1 useBytes use_UTF8 \<ge> 0
         then gsub_fixed_fill h spat srep global useBytes use_UTF8 s1 slen1
                (fgrep_one_bytes h spat s1 slen1 useBytes use_UTF8) u2
         else Some (u2 @ s1))"

definition gsub_fixed_elt ::
  "host \<Rightarrow> cstring \<Rightarrow> cstring \<Rightarrow> charsxp \<Rightarrow> bool \<Rightarrow> bool \<Rightarrow> bool \<Rightarrow> cstring
   \<Rightarrow> char gsub_out option" where
  \<comment> \<open>the first pass, which counts the matches to size \<open>cbuf\<close> exactly, writes nothing
      and is left out: the buffer is a list here\<close>
  "gsub_fixed_elt h spat srep rep global useBytes use_UTF8 s =
     (let ns = int (length s);
          st = fgrep_one_bytes h spat s ns useBytes use_UTF8
      in if st < 0 then Some KeepElt
         else if rep = NA_STRING then Some NaElt
         else map_option NewElt
                (gsub_fixed_fill h spat srep global useBytes use_UTF8 s ns st []))"

subsection \<open>The regular-expression dialects\<close>

text \<open>
  The locals of the matching loop.  \<open>u\<close> holds the bytes written to \<open>cbuf\<close> so far, so the
  pointer difference \<open>u - cbuf\<close> is its length, and \<open>nns\<close> is the capacity of \<open>cbuf\<close>.
  \<open>rc\<close> is the last return code of the engine.  \<open>matched\<close> is an auxiliary variable that
  the code does not have: the ranges of the subject the engine reported as matches, as
  offsets from the start of the subject, in the order of the iterations.
\<close>

record 'c gsub_state =
  u :: "'c list"
  nns :: int
  offset :: int
  nmatch :: int
  eflags :: int
  last_end :: int
  rc :: int
  matched :: "(int \<times> int) list"

datatype 'a loop_ctl = Break 'a | Continue 'a | Abort error

definition grow :: "int \<Rightarrow> int \<Rightarrow> error + int" where
  \<comment> \<open>\<open>if (nns < need) { if (nns > INT_MAX/2) error(...); nns *= 2; ... }\<close>: the new
      capacity\<close>
  "grow n need =
     (if n < need then (if n > INT_MAX div 2 then Inl ResultTooLong else Inr (n * 2))
      else Inr n)"

definition gsub_init :: "bool \<Rightarrow> int \<Rightarrow> int \<Rightarrow> int \<Rightarrow> 'c gsub_state" where
  \<comment> \<open>the initial capacity and locals; \<open>big\<close> is what replaces \<open>dnns\<close> above 10000
      (\<open>2*ns + replen + 1000\<close>, or \<open>2*ns + maxrep + 1000\<close> in the wide loop)\<close>
  "gsub_init global ns maxrep big =
     \<lparr> u = [],
       nns = (if global then (if ns * (maxrep + 1) + 1000 > 10000 then big
                              else ns * (maxrep + 1) + 1000)
              else ns + maxrep + 1000),
       offset = 0, nmatch = 0, eflags = 0, last_end = -1, rc = 0, matched = [] \<rparr>"

definition gsub_tre_emit ::
  "('c \<Rightarrow> nat) \<Rightarrow> 'c \<Rightarrow> 'c list \<Rightarrow> 'c list \<Rightarrow> 'c gsub_state \<Rightarrow> regmatch_t list \<Rightarrow> 'c gsub_state" where
  \<comment> \<open>the head of the loop body, from \<open>nmatch++\<close> to \<open>offset += regmatch[0].rm_eo\<close>: copy
      the bytes before the match, then the replacement unless \<open>last_end\<close> forbids it\<close>
  "gsub_tre_emit code z srep s st regmatch =
     (let so = fst (regmatch_at regmatch 0);
          eo = snd (regmatch_at regmatch 0);
          st1 = st \<lparr> nmatch := nmatch st + 1,
                     u := u st @ cslice z s (offset st) (offset st + so),
                     matched := matched st @ [(offset st + so, offset st + eo)] \<rparr>;
          st2 = (if offset st + eo > last_end st
                 then st1 \<lparr> u := u st1 @ string_adj code z (drop (nat (offset st)) s) srep regmatch,
                            last_end := offset st + eo \<rparr>
                 else st1)
      in st2 \<lparr> offset := offset st + eo \<rparr>)"

definition gsub_skip :: "'c \<Rightarrow> 'c list \<Rightarrow> 'c gsub_state \<Rightarrow> 'c gsub_state" where
  \<comment> \<open>\<open>*u++ = s[offset++]\<close>, after an empty match\<close>
  "gsub_skip z s st = st \<lparr> u := u st @ [celem z s (offset st)], offset := offset st + 1 \<rparr>"

definition gsub_grow :: "int \<Rightarrow> int \<Rightarrow> int \<Rightarrow> 'c gsub_state \<Rightarrow> 'c gsub_state loop_ctl" where
  \<comment> \<open>the end of the loop body: \<open>if (nns < (u - cbuf) + (ns-offset) + maxrep + 100) {...}\<close>
      and then \<open>eflags = REG_NOTBOL\<close> (or \<open>eflag = PCRE2_NOTBOL\<close>)\<close>
  "gsub_grow ns maxrep notbol st =
     (case grow (nns st) (int (length (u st)) + (ns - offset st) + maxrep + 100) of
        Inl e \<Rightarrow> Abort e
      | Inr n \<Rightarrow> Continue (st \<lparr> nns := n, eflags := notbol \<rparr>))"

definition gsub_tre_body ::
  "('c \<Rightarrow> nat) \<Rightarrow> 'c \<Rightarrow> 'c list \<Rightarrow> bool \<Rightarrow> 'c list \<Rightarrow> int \<Rightarrow> int \<Rightarrow> 'c gsub_state
   \<Rightarrow> regmatch_t list \<Rightarrow> 'c gsub_state loop_ctl" where
  \<comment> \<open>the body of \<open>while (tre_regexecb(&reg, s+offset, 10, regmatch, eflags) == 0)\<close>\<close>
  "gsub_tre_body code z srep global s ns maxrep st regmatch =
     (let st3 = gsub_tre_emit code z srep s st regmatch
      in if celem z s (offset st3) = z \<or> \<not> global then Break st3
         else gsub_grow ns maxrep REG_NOTBOL
                (if snd (regmatch_at regmatch 0) = fst (regmatch_at regmatch 0)
                 then gsub_skip z s st3 else st3))"

partial_function (option) gsub_tre_loop ::
  "('c list \<Rightarrow> int \<Rightarrow> int \<times> regmatch_t list) \<Rightarrow> ('c \<Rightarrow> nat) \<Rightarrow> 'c \<Rightarrow> 'c list \<Rightarrow> bool
   \<Rightarrow> 'c list \<Rightarrow> int \<Rightarrow> int \<Rightarrow> 'c gsub_state \<Rightarrow> (error + 'c gsub_state) option" where
  \<comment> \<open>\<open>exec t e\<close> is \<open>tre_regexecb(&reg, t, 10, regmatch, e)\<close> or \<open>tre_regwexec\<close>\<close>
  "gsub_tre_loop exec code z srep global s ns maxrep st =
     (if fst (exec (drop (nat (offset st)) s) (eflags st)) = 0 then
        (case gsub_tre_body code z srep global s ns maxrep st
                (snd (exec (drop (nat (offset st)) s) (eflags st))) of
           Break st' \<Rightarrow> Some (Inr (st' \<lparr> rc := 0 \<rparr>))
         | Abort e \<Rightarrow> Some (Inl e)
         | Continue st' \<Rightarrow> gsub_tre_loop exec code z srep global s ns maxrep st')
      else Some (Inr (st \<lparr> rc := fst (exec (drop (nat (offset st)) s) (eflags st)) \<rparr>)))"

partial_function (option) utf8_next :: "host \<Rightarrow> cstring \<Rightarrow> int \<Rightarrow> int \<Rightarrow> int option" where
  \<comment> \<open>"advance by a char": \<open>while ((used = utf8clen(s[pos]))) { pos += used; if (pos >
      offset) { ...; offset = pos; break; } }\<close>; the result is the new \<open>offset\<close>\<close>
  "utf8_next h s offs pos =
     (if utf8clen h (celem NUL s pos) = 0 then Some offs
      else if pos + utf8clen h (celem NUL s pos) > offs then Some (pos + utf8clen h (celem NUL s pos))
      else utf8_next h s offs (pos + utf8clen h (celem NUL s pos)))"

definition gsub_pcre_emit ::
  "host \<Rightarrow> cstring \<Rightarrow> bool \<Rightarrow> cstring \<Rightarrow> char gsub_state \<Rightarrow> int \<Rightarrow> nat list \<Rightarrow> char gsub_state" where
  \<comment> \<open>the head of the loop body, from \<open>nmatch++\<close> to \<open>offset = (int) ovector[1]\<close>\<close>
  "gsub_pcre_emit h srep use_UTF8 s st ncap ovector =
     (let ov0 = int (ovec_at ovector 0);
          ov1 = int (ovec_at ovector 1);
          st1 = st \<lparr> nmatch := nmatch st + 1,
                     u := u st @ cslice NUL s (offset st) ov0,
                     matched := matched st @ [(ov0, ov1)] \<rparr>;
          st2 = (if last_end st = -1 \<or> ov1 > last_end st
                 then st1 \<lparr> u := u st1 @ R_pcre_string_adj h s srep ovector use_UTF8 ncap False False,
                            last_end := ov1 \<rparr>
                 else st1)
      in st2 \<lparr> offset := ov1 \<rparr>)"

definition gsub_skip_utf8 :: "host \<Rightarrow> cstring \<Rightarrow> char gsub_state \<Rightarrow> char gsub_state option" where
  \<comment> \<open>"advance by a char" in UTF-8: copy the bytes up to the next character\<close>
  "gsub_skip_utf8 h s st =
     map_option (\<lambda>pos. st \<lparr> u := u st @ cslice NUL s (offset st) pos, offset := pos \<rparr>)
       (utf8_next h s (offset st) 0)"

definition gsub_pcre_body ::
  "host \<Rightarrow> cstring \<Rightarrow> bool \<Rightarrow> bool \<Rightarrow> cstring \<Rightarrow> int \<Rightarrow> int \<Rightarrow> char gsub_state
   \<Rightarrow> int \<Rightarrow> nat list \<Rightarrow> char gsub_state loop_ctl option" where
  \<comment> \<open>the body of \<open>while ((ncap = pcre2_match(re, s, ns, offset, eflag, ...)) >= 0)\<close>;
      \<open>None\<close> when the search for the next character does not end\<close>
  "gsub_pcre_body h srep global use_UTF8 s ns maxrep st ncap ovector =
     (let st3 = gsub_pcre_emit h srep use_UTF8 s st ncap ovector
      in if celem NUL s (offset st3) = NUL \<or> \<not> global then Some (Break st3)
         else
           map_option (gsub_grow ns maxrep PCRE2_NOTBOL)
             (if ovec_at ovector 1 = ovec_at ovector 0 then
                (if use_UTF8 then gsub_skip_utf8 h s st3 else Some (gsub_skip NUL s st3))
              else Some st3))"

partial_function (option) gsub_pcre_loop ::
  "host \<Rightarrow> pcre2_code \<Rightarrow> cstring \<Rightarrow> bool \<Rightarrow> bool \<Rightarrow> cstring \<Rightarrow> int \<Rightarrow> int \<Rightarrow> char gsub_state
   \<Rightarrow> (error + char gsub_state) option" where
  "gsub_pcre_loop h re srep global use_UTF8 s ns maxrep st =
     (if fst (pcre2_match h re s (nat (offset st)) (eflags st)) \<ge> 0 then
        (case gsub_pcre_body h srep global use_UTF8 s ns maxrep st
                (fst (pcre2_match h re s (nat (offset st)) (eflags st)))
                (snd (pcre2_match h re s (nat (offset st)) (eflags st))) of
           None \<Rightarrow> None
         | Some (Break st') \<Rightarrow>
             Some (Inr (st' \<lparr> rc := fst (pcre2_match h re s (nat (offset st)) (eflags st)) \<rparr>))
         | Some (Abort e) \<Rightarrow> Some (Inl e)
         | Some (Continue st') \<Rightarrow> gsub_pcre_loop h re srep global use_UTF8 s ns maxrep st')
      else Some (Inr (st \<lparr> rc := fst (pcre2_match h re s (nat (offset st)) (eflags st)) \<rparr>)))"

definition R_pcre_exec_error :: "int \<Rightarrow> nat \<Rightarrow> warning list" where
  \<comment> \<open>the PCRE2 variant: no warning for a match or for \<open>PCRE2_ERROR_NOMATCH\<close>\<close>
  "R_pcre_exec_error r i =
     (if r \<ge> 0 \<or> r = PCRE2_ERROR_NOMATCH then [] else [PcreExecError r (i + 1)])"

definition gsub_finish :: "charsxp \<Rightarrow> 'c list \<Rightarrow> int \<Rightarrow> 'c gsub_state \<Rightarrow> error + 'c gsub_out" where
  \<comment> \<open>after the loop: keep the element, store the missing value, or copy the tail\<close>
  "gsub_finish rep s ns st =
     (if nmatch st = 0 then Inr KeepElt
      else if rep = NA_STRING then Inr NaElt
      else
        (case grow (nns st) (int (length (u st)) + (ns - offset st) + 1) of
           Inl e \<Rightarrow> Inl e
         | Inr n \<Rightarrow> Inr (NewElt (u st @ drop (nat (offset st)) s))))"

definition gsub_tre_elt ::
  "host \<Rightarrow> regex_t \<Rightarrow> cstring \<Rightarrow> charsxp \<Rightarrow> bool \<Rightarrow> nat \<Rightarrow> cstring
   \<Rightarrow> (warning list \<times> (error + char gsub_out)) option" where
  \<comment> \<open>extended regexp in bytes, for the element with index \<open>i\<close>\<close>
  "gsub_tre_elt h reg srep rep global i s =
     (let ns = int (length s);
          replen = int (length srep);
          maxrep = replen + (ns - 2) * count_subs of_char srep
      in case gsub_tre_loop (\<lambda>t e. tre_regexecb h reg t 10 e) of_char NUL srep global s ns maxrep
                (gsub_init global ns maxrep (2 * ns + replen + 1000)) of
           None \<Rightarrow> None
         | Some (Inl e) \<Rightarrow> Some ([], Inl e)
         | Some (Inr st) \<Rightarrow>
             Some (if rc st = REG_ESPACE then [OutOfMemory (i + 1)] else [],
                   gsub_finish rep s ns st))"

definition gsub_pcre_elt ::
  "host \<Rightarrow> pcre2_code \<Rightarrow> cstring \<Rightarrow> charsxp \<Rightarrow> bool \<Rightarrow> bool \<Rightarrow> nat \<Rightarrow> cstring
   \<Rightarrow> (warning list \<times> (error + char gsub_out)) option" where
  \<comment> \<open>the Perl dialect, for the element with index \<open>i\<close>\<close>
  "gsub_pcre_elt h re srep rep global use_UTF8 i s =
     (let ns = int (length s);
          replen = int (length srep);
          maxrep = replen + (ns - 2) * count_subs of_char srep
      in case gsub_pcre_loop h re srep global use_UTF8 s ns maxrep
                (gsub_init global ns maxrep (2 * ns + replen + 1000)) of
           None \<Rightarrow> None
         | Some (Inl e) \<Rightarrow> Some ([], Inl e)
         | Some (Inr st) \<Rightarrow> Some (R_pcre_exec_error (rc st) i, gsub_finish rep s ns st))"

definition gsub_wc_elt ::
  "host \<Rightarrow> regex_t \<Rightarrow> wstring \<Rightarrow> charsxp \<Rightarrow> bool \<Rightarrow> wstring
   \<Rightarrow> (error + nat gsub_out) option" where
  \<comment> \<open>extended regexp in \<open>wchar_t\<close>; \<open>s\<close> is \<open>wtransChar\<close> of the element\<close>
  "gsub_wc_elt h reg wrep rep global s =
     (let ns = int (length s);
          replen = int (length wrep);
          maxrep = replen + (ns - 2) * count_subs id wrep
      in case gsub_tre_loop (\<lambda>t e. tre_regwexec h reg t 10 e) id 0 wrep global s ns maxrep
                (gsub_init global ns maxrep (2 * ns + maxrep + 1000)) of
           None \<Rightarrow> None
         | Some (Inl e) \<Rightarrow> Some (Inl e)
         | Some (Inr st) \<Rightarrow> Some (gsub_finish rep s ns st))"

section \<open>\<open>do_gsub\<close>: the call\<close>

text \<open>
  The logical arguments arrive through \<open>asLogical\<close>, which yields true, false or the
  missing logical (\<open>None\<close> here); every operation first replaces a missing flag by false.
  The arguments \<open>pat\<close>, \<open>rep\<close> and \<open>text\<close> are character vectors, so the \<open>isString\<close> tests
  hold by their type.  Attributes of the vectors are not modelled.
\<close>

definition na_false :: "bool option \<Rightarrow> bool" where
  \<comment> \<open>\<open>if (x == NA_INTEGER) x = 0\<close>\<close>
  "na_false x = (case x of None \<Rightarrow> False | Some b \<Rightarrow> b)"

record regex_flags =
  igcase_opt :: bool
  perl_opt :: bool
  fixed_opt :: bool
  useBytes :: bool

definition do_gsub_flags ::
  "bool option \<Rightarrow> bool option \<Rightarrow> bool option \<Rightarrow> bool option \<Rightarrow> warning list \<times> regex_flags" where
  "do_gsub_flags igcase perl fixed bytes =
     (let fl = \<lparr> igcase_opt = na_false igcase, perl_opt = na_false perl,
                  fixed_opt = na_false fixed, useBytes = na_false bytes \<rparr>;
          w1 = (if fixed_opt fl \<and> igcase_opt fl then [ArgumentIgnored ''ignore.case = TRUE''] else [])
      in if fixed_opt fl \<and> perl_opt fl
         then (w1 @ [ArgumentIgnored ''perl = TRUE''], fl \<lparr> perl_opt := False \<rparr>)
         else (w1, fl))"

record enc_mode =
  m_useBytes :: bool
  m_use_UTF8 :: bool
  m_use_WC :: bool

definition gsub_classify :: "host \<Rightarrow> regex_flags \<Rightarrow> charsxp \<Rightarrow> charsxp \<Rightarrow> charsxp list \<Rightarrow> enc_mode" where
  \<comment> \<open>the choice of \<open>useBytes\<close>, \<open>use_UTF8\<close> and \<open>use_WC\<close>\<close>
  "gsub_classify h fl pat0 rep0 text =
     (let ub1 = (if \<not> useBytes fl
                 then IS_ASCII pat0 \<and> IS_ASCII rep0 \<and>
                      (\<forall>x \<in> set text. x = NA_STRING \<or> IS_ASCII x)
                 else True);
          ub2 = (if \<not> ub1
                 then IS_BYTES pat0 \<or> IS_BYTES rep0 \<or> (\<exists>x \<in> set text. IS_BYTES x)
                 else True);
          u8a = (if \<not> ub2 then
                   (let a = ((\<not> fixed_opt fl \<and> mbcslocale h) \<or> IS_UTF8 pat0 \<or> IS_UTF8 rep0);
                        b = (a \<or> (\<exists>x \<in> set text. IS_UTF8 x))
                    in b \<or> (\<not> latin1locale h \<and> (\<exists>x \<in> set text. IS_LATIN1 x)))
                 else False)
      in if \<not> fixed_opt fl \<and> \<not> perl_opt fl
         then \<lparr> m_useBytes = ub2, m_use_UTF8 = False,
                m_use_WC = (u8a \<or> (\<not> ub2 \<and> mbcslocale h \<and> \<not> utf8locale h)) \<rparr>
         else \<lparr> m_useBytes = ub2, m_use_UTF8 = u8a, m_use_WC = False \<rparr>)"

definition gsub_translate :: "host \<Rightarrow> enc_mode \<Rightarrow> charsxp \<Rightarrow> charsxp \<Rightarrow> error + cstring \<times> cstring" where
  \<comment> \<open>\<open>spat\<close> and \<open>srep\<close>; both stay \<open>NULL\<close> (empty here) in the wide mode\<close>
  "gsub_translate h md pat0 rep0 =
     (if m_useBytes md then Inr (R_CHAR pat0, R_CHAR rep0)
      else if m_use_WC md then Inr ([], [])
      else if m_use_UTF8 md then
        (if \<not> utf8Valid h (translateCharUTF8 h pat0) then Inl PatternInvalidUTF8
         else if \<not> utf8Valid h (translateCharUTF8 h rep0) then Inl ReplacementInvalidUTF8
         else Inr (translateCharUTF8 h pat0, translateCharUTF8 h rep0))
      else
        (if mbcslocale h \<and> \<not> mbcsValid h (translateChar h pat0) then Inl PatternInvalidLocale
         else if mbcslocale h \<and> \<not> mbcsValid h (translateChar h rep0) then Inl ReplacementInvalidLocale
         else Inr (translateChar h pat0, translateChar h rep0)))"

text \<open>
  \<open>R_pcre2_prepare\<close>: a pattern that does not compile gives a warning and the error.
  The JIT compilation and the JIT stack change how the engine runs, not what this model
  sees of it; they are left out here (see \<open>jit_stack_size\<close> below for the stack ceiling).
\<close>

definition R_pcre2_prepare ::
  "host \<Rightarrow> cstring \<Rightarrow> bool \<Rightarrow> bool \<Rightarrow> warning list \<times> (error + pcre2_code)" where
  "R_pcre2_prepare h pattern use_UTF8 caseless =
     (if pcre2_compile h pattern use_UTF8 caseless
      then ([], Inr \<lparr> pc_pattern = pattern, pc_utf = use_UTF8, pc_caseless = caseless \<rparr>)
      else ([PcreCompileError], Inl InvalidRegex))"

definition reg_report :: "warning list \<times> (error + 'a)" where
  "reg_report = ([TreCompileError], Inl InvalidRegex)"

datatype gsub_engine =
    FixedEng | PerlEng pcre2_code | TreEng regex_t | WideEng regex_t wstring

definition gsub_compile ::
  "host \<Rightarrow> regex_flags \<Rightarrow> enc_mode \<Rightarrow> cstring \<Rightarrow> charsxp \<Rightarrow> charsxp
   \<Rightarrow> warning list \<times> (error + gsub_engine)" where
  "gsub_compile h fl md spat pat0 rep0 =
     (if fixed_opt fl then
        (if length spat = 0 then ([], Inl ZeroLengthPattern) else ([], Inr FixedEng))
      else if perl_opt fl then
        (case R_pcre2_prepare h spat (m_use_UTF8 md) (igcase_opt fl) of
           (w, Inl e) \<Rightarrow> (w, Inl e)
         | (w, Inr re) \<Rightarrow> (w, Inr (PerlEng re)))
      else
        (let cflags = (if igcase_opt fl then REG_EXTENDED + REG_ICASE else REG_EXTENDED) in
         if \<not> m_use_WC md then
           (if tre_regcompb h spat cflags \<noteq> 0 then reg_report
            else ([], Inr (TreEng (Regex spat cflags))))
         else
           (if tre_regwcomp h (wtransChar h pat0) cflags \<noteq> 0 then reg_report
            else ([], Inr (WideEng (WRegex (wtransChar h pat0) cflags) (wtransChar h rep0))))))"

definition gsub_elt ::
  "host \<Rightarrow> bool \<Rightarrow> charsxp \<Rightarrow> enc_mode \<Rightarrow> cstring \<Rightarrow> cstring \<Rightarrow> gsub_engine \<Rightarrow> nat \<Rightarrow> charsxp
   \<Rightarrow> (warning list \<times> (error + charsxp)) option" where
  \<comment> \<open>the body of \<open>for (i = 0 ; i < n ; i++)\<close> for the element \<open>x\<close> with index \<open>i\<close>\<close>
  "gsub_elt h global rep0 md spat srep eng i x =
     (if x = NA_STRING then Some ([], Inr NA_STRING)
      else if \<not> m_useBytes md \<and> \<not> m_use_WC md \<and> m_use_UTF8 md \<and>
              \<not> utf8Valid h (translateCharUTF8 h x)
        then Some ([], Inl (InputInvalidUTF8 (i + 1)))
      else if \<not> m_useBytes md \<and> \<not> m_use_WC md \<and> \<not> m_use_UTF8 md \<and>
              mbcslocale h \<and> \<not> mbcsValid h (translateChar h x)
        then Some ([], Inl (InputInvalidLocale (i + 1)))
      else
        (let s = (if m_useBytes md then R_CHAR x
                  else if m_use_UTF8 md then translateCharUTF8 h x
                  else translateChar h x);
             store = (\<lambda>r. case r of
                        KeepElt \<Rightarrow> x
                      | NaElt \<Rightarrow> NA_STRING
                      | NewElt cbuf \<Rightarrow>
                          (if m_useBytes md then mkChar cbuf
                           else if m_use_UTF8 md then mkCharCE cbuf Utf8
                           else markKnown h cbuf x))
         in case eng of
              FixedEng \<Rightarrow>
                map_option (\<lambda>r. ([], Inr (store r)))
                  (gsub_fixed_elt h spat srep rep0 global (m_useBytes md) (m_use_UTF8 md) s)
            | PerlEng re \<Rightarrow>
                map_option (\<lambda>(w, r). (w, map_sum id store r))
                  (gsub_pcre_elt h re srep rep0 global (m_use_UTF8 md) i s)
            | TreEng reg \<Rightarrow>
                map_option (\<lambda>(w, r). (w, map_sum id store r))
                  (gsub_tre_elt h reg srep rep0 global i s)
            | WideEng reg wrep \<Rightarrow>
                map_option
                  (\<lambda>r. ([], map_sum id
                       (\<lambda>r. case r of KeepElt \<Rightarrow> x | NaElt \<Rightarrow> NA_STRING
                                     | NewElt cbuf \<Rightarrow> mkCharW h cbuf) r))
                  (gsub_wc_elt h reg wrep rep0 global (wtransChar h x))))"

fun gsub_elts ::
  "host \<Rightarrow> bool \<Rightarrow> charsxp \<Rightarrow> enc_mode \<Rightarrow> cstring \<Rightarrow> cstring \<Rightarrow> gsub_engine \<Rightarrow> nat
   \<Rightarrow> charsxp list \<Rightarrow> (warning list \<times> (error + charsxp list)) option" where
  \<comment> \<open>the loop over the elements, from index \<open>i\<close> on; an error ends the call\<close>
  "gsub_elts h global rep0 md spat srep eng i [] = Some ([], Inr [])"
| "gsub_elts h global rep0 md spat srep eng i (x # xs) =
     (case gsub_elt h global rep0 md spat srep eng i x of
        None \<Rightarrow> None
      | Some (w, Inl e) \<Rightarrow> Some (w, Inl e)
      | Some (w, Inr y) \<Rightarrow>
          (case gsub_elts h global rep0 md spat srep eng (i + 1) xs of
             None \<Rightarrow> None
           | Some (w', Inl e) \<Rightarrow> Some (w @ w', Inl e)
           | Some (w', Inr ys) \<Rightarrow> Some (w @ w', Inr (y # ys))))"

definition do_gsub_run ::
  "host \<Rightarrow> bool \<Rightarrow> charsxp list \<Rightarrow> charsxp list \<Rightarrow> charsxp list \<Rightarrow> warning list \<Rightarrow> regex_flags
   \<Rightarrow> (warning list \<times> (error + charsxp list)) option" where
  \<comment> \<open>\<open>do_gsub\<close> after the flags are taken in, with the warnings \<open>w1\<close> signalled so far\<close>
  "do_gsub_run h global pat rep text w1 fl =
     (if length pat < 1 then Some (w1, Inl (InvalidArgument ''pattern''))
      else
        (let w2 = w1 @ (if length pat > 1 then [OnlyFirstUsed ''pattern''] else []) in
         if length rep < 1 then Some (w2, Inl (InvalidArgument ''replacement''))
         else
           (let w3 = w2 @ (if length rep > 1 then [OnlyFirstUsed ''replacement''] else []) in
            if pat ! 0 = NA_STRING then Some (w3, Inr (map (\<lambda>x. NA_STRING) text))
            else
              (let md = gsub_classify h fl (pat ! 0) (rep ! 0) text in
               case gsub_translate h md (pat ! 0) (rep ! 0) of
                 Inl e \<Rightarrow> Some (w3, Inl e)
               | Inr (spat, srep) \<Rightarrow>
                   (case gsub_compile h fl md spat (pat ! 0) (rep ! 0) of
                      (w4, Inl e) \<Rightarrow> Some (w3 @ w4, Inl e)
                    | (w4, Inr eng) \<Rightarrow>
                        (case gsub_elts h global (rep ! 0) md spat srep eng 0 text of
                           None \<Rightarrow> None
                         | Some (w5, r) \<Rightarrow> Some (w3 @ w4 @ w5, r)))))))"

definition do_gsub ::
  "host \<Rightarrow> bool \<Rightarrow> charsxp list \<Rightarrow> charsxp list \<Rightarrow> charsxp list
   \<Rightarrow> bool option \<Rightarrow> bool option \<Rightarrow> bool option \<Rightarrow> bool option
   \<Rightarrow> (warning list \<times> (error + charsxp list)) option" where
  \<comment> \<open>\<open>global\<close> is \<open>PRIMVAL(op)\<close>: false for sub, true for gsub.  The result is the
      warnings signalled and the error or the answer; \<open>None\<close> if the call does not return.\<close>
  "do_gsub h global pat rep text igcase perl fixed bytes =
     do_gsub_run h global pat rep text
       (fst (do_gsub_flags igcase perl fixed bytes))
       (snd (do_gsub_flags igcase perl fixed bytes))"

section \<open>\<open>do_grep\<close>\<close>

record grep_flags = regex_flags +
  value_opt :: bool
  invert :: bool

definition do_grep_flags ::
  "bool option \<Rightarrow> bool option \<Rightarrow> bool option \<Rightarrow> bool option \<Rightarrow> bool option \<Rightarrow> bool option
   \<Rightarrow> warning list \<times> grep_flags" where
  "do_grep_flags igcase value perl fixed bytes invt =
     (let fl = \<lparr> igcase_opt = na_false igcase, perl_opt = na_false perl,
                  fixed_opt = na_false fixed, useBytes = na_false bytes,
                  value_opt = na_false value, invert = na_false invt \<rparr>;
          w1 = (if fixed_opt fl \<and> igcase_opt fl then [ArgumentIgnored ''ignore.case = TRUE''] else [])
      in if fixed_opt fl \<and> perl_opt fl
         then (w1 @ [ArgumentIgnored ''perl = TRUE''], fl \<lparr> perl_opt := False \<rparr>)
         else (w1, fl))"

text \<open>
  The answer of \<open>do_grep\<close>: a character vector, a logical vector or an integer vector;
  \<open>None\<close> is the missing logical or integer.
\<close>

datatype grep_ans = StrVec "charsxp list" | LglVec "bool option list" | IntVec "int option list"

definition grep_classify :: "host \<Rightarrow> bool \<Rightarrow> bool \<Rightarrow> bool \<Rightarrow> charsxp \<Rightarrow> charsxp list \<Rightarrow> enc_mode" where
  \<comment> \<open>the choice of \<open>useBytes\<close>, \<open>use_UTF8\<close> and \<open>use_WC\<close> in \<open>do_grep\<close>\<close>
  "grep_classify h bytes perl fixed pat0 text =
     (let ub1 = (if \<not> bytes
                 then IS_ASCII pat0 \<and> (\<forall>x \<in> set text. x = NA_STRING \<or> IS_ASCII x)
                 else True);
          ub2 = (if \<not> ub1 then IS_BYTES pat0 \<or> (\<exists>x \<in> set text. IS_BYTES x) else True);
          u8a = (if \<not> ub2 then
                   (let a = ((perl \<and> mbcslocale h) \<or> IS_UTF8 pat0);
                        b = (a \<or> (\<exists>x \<in> set text. IS_UTF8 x))
                    in b \<or> (\<not> latin1locale h \<and> (IS_LATIN1 pat0 \<or> (\<exists>x \<in> set text. IS_LATIN1 x))))
                 else False)
      in if \<not> fixed \<and> \<not> perl
         then \<lparr> m_useBytes = ub2, m_use_UTF8 = False,
                m_use_WC = (u8a \<or> (\<not> ub2 \<and> mbcslocale h \<and> \<not> utf8locale h)) \<rparr>
         else \<lparr> m_useBytes = ub2, m_use_UTF8 = u8a, m_use_WC = False \<rparr>)"

definition grep_translate :: "host \<Rightarrow> enc_mode \<Rightarrow> charsxp \<Rightarrow> error + cstring" where
  "grep_translate h md pat0 =
     (if m_useBytes md then Inr (R_CHAR pat0)
      else if m_use_WC md then Inr []
      else if m_use_UTF8 md then
        (if \<not> utf8Valid h (translateCharUTF8 h pat0) then Inl RegexInvalidUTF8
         else Inr (translateCharUTF8 h pat0))
      else
        (if mbcslocale h \<and> \<not> mbcsValid h (translateChar h pat0) then Inl RegexInvalidLocale
         else Inr (translateChar h pat0)))"

datatype grep_engine = GFixed | GPerl pcre2_code | GTre regex_t

definition grep_compile ::
  "host \<Rightarrow> grep_flags \<Rightarrow> enc_mode \<Rightarrow> cstring \<Rightarrow> charsxp \<Rightarrow> warning list \<times> (error + grep_engine)" where
  "grep_compile h fl md spat pat0 =
     (if fixed_opt fl then ([], Inr GFixed)
      else if perl_opt fl then
        (case R_pcre2_prepare h spat (m_use_UTF8 md) (igcase_opt fl) of
           (w, Inl e) \<Rightarrow> (w, Inl e)
         | (w, Inr re) \<Rightarrow> (w, Inr (GPerl re)))
      else
        (let cflags = (if igcase_opt fl then REG_NOSUB + REG_EXTENDED + REG_ICASE
                       else REG_NOSUB + REG_EXTENDED) in
         if \<not> m_use_WC md then
           (if tre_regcompb h spat cflags \<noteq> 0 then reg_report
            else ([], Inr (GTre (Regex spat cflags))))
         else
           (if tre_regwcomp h (wtransChar h pat0) cflags \<noteq> 0 then reg_report
            else ([], Inr (GTre (WRegex (wtransChar h pat0) cflags))))))"

definition NWARN :: nat where "NWARN = 5"

definition grep_elt ::
  "host \<Rightarrow> enc_mode \<Rightarrow> cstring \<Rightarrow> grep_engine \<Rightarrow> nat \<Rightarrow> nat \<Rightarrow> charsxp
   \<Rightarrow> warning list \<times> nat \<times> bool \<times> bool" where
  \<comment> \<open>the body of the loop for the element \<open>x\<close> with index \<open>i\<close>, with \<open>nwarn\<close> on entry:
      the warnings, the new \<open>nwarn\<close>, \<open>LOGICAL(ind)[i]\<close>, and whether the iteration
      reached its end (an invalid input leaves it by \<open>continue\<close>)\<close>
  "grep_elt h md spat eng nwarn i x =
     (if x = NA_STRING then ([], nwarn, False, True)
      else if \<not> m_useBytes md \<and> \<not> m_use_WC md \<and> m_use_UTF8 md \<and>
              \<not> utf8Valid h (translateCharUTF8 h x)
        then (if nwarn < NWARN then [InputWarnUTF8 (i + 1)] else [], nwarn + 1, False, False)
      else if \<not> m_useBytes md \<and> \<not> m_use_WC md \<and> \<not> m_use_UTF8 md \<and>
              mbcslocale h \<and> \<not> mbcsValid h (translateChar h x)
        then (if nwarn < NWARN then [InputWarnLocale (i + 1)] else [], nwarn + 1, False, False)
      else
        (let s = (if m_useBytes md then R_CHAR x
                  else if m_use_UTF8 md then translateCharUTF8 h x
                  else translateChar h x)
         in case eng of
              GFixed \<Rightarrow>
                ([], nwarn, fgrep_one h spat s (m_useBytes md) (m_use_UTF8 md) \<ge> 0, True)
            | GPerl re \<Rightarrow>
                (let r = fst (pcre2_match h re s 0 0)
                 in (R_pcre_exec_error r i, nwarn, r \<ge> 0, True))
            | GTre reg \<Rightarrow>
                (let r = (if \<not> m_use_WC md then fst (tre_regexecb h reg s 0 0)
                          else fst (tre_regwexec h reg (wtransChar h x) 0 0))
                 in (if r = REG_ESPACE then [OutOfMemory (i + 1)] else [], nwarn, r = 0, True))))"

fun grep_elts ::
  "host \<Rightarrow> enc_mode \<Rightarrow> cstring \<Rightarrow> grep_engine \<Rightarrow> bool \<Rightarrow> nat \<Rightarrow> nat \<Rightarrow> charsxp list
   \<Rightarrow> warning list \<times> bool list \<times> nat" where
  \<comment> \<open>the loop over the elements from index \<open>i\<close>: the warnings, \<open>ind\<close> and how much the loop
      adds to \<open>nmatches\<close>\<close>
  "grep_elts h md spat eng invt nwarn i [] = ([], [], 0)"
| "grep_elts h md spat eng invt nwarn i (x # xs) =
     (case grep_elt h md spat eng nwarn i x of
        (w, nwarn', b, reached) \<Rightarrow>
          (case grep_elts h md spat eng invt nwarn' (i + 1) xs of
             (w', bs, k) \<Rightarrow>
               (w @ w', b # bs, (if reached \<and> (invt \<noteq> b) then k + 1 else k))))"

fun grep_fill :: "'a list \<Rightarrow> nat \<Rightarrow> ('a \<times> bool) list \<Rightarrow> 'a list" where
  \<comment> \<open>\<open>for (i = 0, j = 0; i < n; i++) if (invert ^ LOGICAL(ind)[i]) ans[j++] = ...\<close>; the
      pairs hold the value for index \<open>i\<close> and \<open>invert ^ ind[i]\<close>\<close>
  "grep_fill ans j [] = ans"
| "grep_fill ans j ((v, sel) # xs) =
     (if sel then grep_fill (ans[j := v]) (j + 1) xs else grep_fill ans j xs)"

definition do_grep_run ::
  "host \<Rightarrow> bool \<Rightarrow> charsxp list \<Rightarrow> charsxp list \<Rightarrow> warning list \<Rightarrow> grep_flags
   \<Rightarrow> warning list \<times> (error + grep_ans)" where
  \<comment> \<open>\<open>do_grep\<close> after the flags are taken in, with the warnings \<open>w1\<close> signalled so far\<close>
  "do_grep_run h grepl pat text w1 fl =
     (if length pat < 1 then (w1, Inl (InvalidArgument ''pattern''))
      else
        (let w2 = w1 @ (if length pat > 1 then [OnlyFirstUsed ''pattern''] else []) in
         if pat ! 0 = NA_STRING then
           (if value_opt fl then (w2, Inr (StrVec (map (\<lambda>x. NA_STRING) text)))
            else if grepl then (w2, Inr (LglVec (map (\<lambda>x. None) text)))
            else (w2, Inr (IntVec (map (\<lambda>x. None) text))))
         else
           (let md = grep_classify h (useBytes fl) (perl_opt fl) (fixed_opt fl) (pat ! 0) text in
            case grep_translate h md (pat ! 0) of
              Inl e \<Rightarrow> (w2, Inl e)
            | Inr spat \<Rightarrow>
                (case grep_compile h fl md spat (pat ! 0) of
                   (w3, Inl e) \<Rightarrow> (w2 @ w3, Inl e)
                 | (w3, Inr eng) \<Rightarrow>
                     (case grep_elts h md spat eng (invert fl) 0 0 text of
                        (w4, ind, nmatches) \<Rightarrow>
                          (w2 @ w3 @ w4,
                           Inr (if grepl then LglVec (map Some ind)
                                else if value_opt fl then
                                  StrVec (grep_fill (replicate nmatches (CHARSXP [] Ascii)) 0
                                            (zip text (map (\<lambda>b. invert fl \<noteq> b) ind)))
                                else
                                  IntVec (grep_fill (replicate nmatches (Some 0)) 0
                                            (zip (map (\<lambda>i. Some (int i + 1)) [0..<length text])
                                                 (map (\<lambda>b. invert fl \<noteq> b) ind))))))))))"

definition do_grep ::
  "host \<Rightarrow> bool \<Rightarrow> charsxp list \<Rightarrow> charsxp list
   \<Rightarrow> bool option \<Rightarrow> bool option \<Rightarrow> bool option \<Rightarrow> bool option \<Rightarrow> bool option \<Rightarrow> bool option
   \<Rightarrow> warning list \<times> (error + grep_ans)" where
  \<comment> \<open>the second argument is \<open>PRIMVAL(op)\<close>: true for grepl.  Vectors longer than
      \<open>INT_MAX\<close> are not considered.\<close>
  "do_grep h grepl pat text igcase value perl fixed bytes invt =
     do_grep_run h grepl pat text
       (fst (do_grep_flags igcase value perl fixed bytes invt))
       (snd (do_grep_flags igcase value perl fixed bytes invt))"

section \<open>Argument intake of the other operations\<close>

text \<open>
  \<open>do_regexpr\<close> (regexpr and gregexpr) and \<open>do_regexec\<close> from their first statement to the
  tests on \<open>pat\<close> and \<open>text\<close>; the call goes on only with an \<open>Inr\<close>.  \<open>do_strsplit\<close> and
  \<open>do_grepraw\<close> take their flags in the same way.
\<close>

definition do_regexpr_args ::
  "charsxp list \<Rightarrow> bool option \<Rightarrow> bool option \<Rightarrow> bool option \<Rightarrow> bool option
   \<Rightarrow> warning list \<times> (error + regex_flags)" where
  "do_regexpr_args pat igcase perl fixed bytes =
     (let fl = \<lparr> igcase_opt = na_false igcase, perl_opt = na_false perl,
                  fixed_opt = na_false fixed, useBytes = na_false bytes \<rparr>;
          w1 = (if fixed_opt fl \<and> igcase_opt fl then [ArgumentIgnored ''ignore.case = TRUE''] else []);
          w2 = w1 @ (if fixed_opt fl \<and> perl_opt fl then [ArgumentIgnored ''perl = TRUE''] else []);
          fl2 = (if fixed_opt fl \<and> perl_opt fl then fl \<lparr> perl_opt := False \<rparr> else fl)
      in if length pat < 1 \<or> pat ! 0 = NA_STRING then (w2, Inl (InvalidArgument ''pattern''))
         else (w2 @ (if length pat > 1 then [OnlyFirstUsed ''pattern''] else []), Inr fl2))"

record regexec_flags =
  opt_icase :: bool
  opt_fixed :: bool
  x_useBytes :: bool
  cflags :: int

definition do_regexec_args ::
  "charsxp list \<Rightarrow> bool option \<Rightarrow> bool option \<Rightarrow> bool option
   \<Rightarrow> warning list \<times> (error + regexec_flags)" where
  "do_regexec_args pat icase fixed bytes =
     (let ic = na_false icase; fx = na_false fixed;
          w1 = (if fx \<and> ic then [ArgumentIgnored ''ignore.case = TRUE''] else []);
          ic2 = (if fx \<and> ic then False else ic);
          cf = REG_EXTENDED + (if fx then REG_LITERAL else 0) + (if ic2 then REG_ICASE else 0)
      in if length pat < 1 \<or> pat ! 0 = NA_STRING then (w1, Inl (InvalidArgument ''pattern''))
         else (w1 @ (if length pat > 1 then [OnlyFirstUsed ''pattern''] else []),
               Inr \<lparr> opt_icase = ic2, opt_fixed = fx, x_useBytes = na_false bytes, cflags = cf \<rparr>))"


section \<open>The all-matches loops of gregexpr\<close>

text \<open>
  The loops collect the matches in two buffers that are doubled when full; the model
  appends to two lists, and the answer is what the code copies out of the buffers.
  \<open>size_t\<close> arithmetic wraps at \<open>2 ^ 64\<close>.  The conversions to \<open>int\<close> are taken as exact
  (offsets below \<open>2 ^ 31\<close>).
\<close>

definition size_t_of :: "int \<Rightarrow> nat" where
  "size_t_of x = nat (x mod 2 ^ 64)"

definition NA_INTEGER :: int where
  "NA_INTEGER = - 2147483648"

record greg_state =
  g_offset :: nat
  g_eflags :: int
  g_rc :: int
  g_foundAny :: bool
  g_matchbuf :: "int list"
  g_matchlenbuf :: "int list"
  g_warn :: "warning list"

partial_function (option) gregexpr_Regexc_loop ::
  "('c list \<Rightarrow> int \<Rightarrow> int \<times> regmatch_t list) \<Rightarrow> 'c list \<Rightarrow> nat \<Rightarrow> greg_state \<Rightarrow> greg_state option" where
  \<comment> \<open>\<open>while (!foundAll)\<close> of \<open>gregexpr_Regexc\<close>; \<open>exec t e\<close> is
      \<open>tre_regexecb(reg, t, 1, regmatch, e)\<close> or \<open>tre_regwexec\<close>, \<open>s\<close> is \<open>string\<close> or \<open>ws\<close>\<close>
  "gregexpr_Regexc_loop exec s i st =
     (if g_offset st < length s \<and> fst (exec (drop (g_offset st) s) (g_eflags st)) = 0 then
        (let rm = regmatch_at (snd (exec (drop (g_offset st) s) (g_eflags st))) 0;
             so = fst rm;
             mlen = snd rm - so
         in gregexpr_Regexc_loop exec s i
              (st \<lparr> g_foundAny := True,
                    g_matchbuf := g_matchbuf st @ [int (g_offset st) + so + 1],
                    g_matchlenbuf := g_matchlenbuf st @ [mlen],
                    g_offset := (if mlen = 0 then size_t_of (int (g_offset st) + so + 1)
                                 else size_t_of (int (g_offset st) + snd rm)),
                    g_rc := 0,
                    g_eflags := REG_NOTBOL \<rparr>))
      else
        (let r = (if g_offset st < length s
                  then fst (exec (drop (g_offset st) s) (g_eflags st)) else g_rc st);
             st1 = (if \<not> g_foundAny st
                    then st \<lparr> g_matchbuf := g_matchbuf st @ [-1],
                              g_matchlenbuf := g_matchlenbuf st @ [-1] \<rparr>
                    else st)
         in Some (st1 \<lparr> g_rc := r, g_eflags := REG_NOTBOL,
                         g_warn := g_warn st @ (if r = REG_ESPACE then [OutOfMemory (i + 1)] else []) \<rparr>)))"

definition gregexpr_Regexc ::
  "('c list \<Rightarrow> int \<Rightarrow> int \<times> regmatch_t list) \<Rightarrow> 'c list \<Rightarrow> nat \<Rightarrow> int
   \<Rightarrow> (int list \<times> int list \<times> warning list) option" where
  \<comment> \<open>the positions, the match lengths and the warnings for the element with index \<open>i\<close>;
      \<open>rc0\<close> is the value of the uninitialised local \<open>rc\<close>\<close>
  "gregexpr_Regexc exec s i rc0 =
     map_option (\<lambda>st. (g_matchbuf st, g_matchlenbuf st, g_warn st))
       (gregexpr_Regexc_loop exec s i
          \<lparr> g_offset = 0, g_eflags = 0, g_rc = rc0, g_foundAny = False,
            g_matchbuf = [], g_matchlenbuf = [], g_warn = [] \<rparr>)"

partial_function (option) getNc_loop :: "host \<Rightarrow> cstring \<Rightarrow> int \<Rightarrow> int \<Rightarrow> int \<Rightarrow> int option" where
  \<comment> \<open>\<open>for (i = 0; i < st; i += utf8clen(s[i])) nc++\<close>\<close>
  "getNc_loop h s st i nc =
     (if i < st then getNc_loop h s st (i + utf8clen h (celem NUL s i)) (nc + 1) else Some nc)"

definition getNc :: "host \<Rightarrow> cstring \<Rightarrow> int \<Rightarrow> int option" where
  "getNc h s st = getNc_loop h s st 0 0"

definition ovector_extract_start_length ::
  "host \<Rightarrow> bool \<Rightarrow> nat \<Rightarrow> nat \<Rightarrow> cstring \<Rightarrow> (int \<times> int \<times> bool) option" where
  \<comment> \<open>\<open>*mptr\<close>, \<open>*lenptr\<close> and the result \<open>foundAll\<close>, for \<open>ovector[0]\<close> and \<open>ovector[1]\<close>\<close>
  "ovector_extract_start_length h use_UTF8 ov0 ov1 string =
     (let st = int ov0 in
      if \<not> use_UTF8 then Some (st + 1, int ov1 - st, False)
      else
        (case (if st > 0 then map_option (\<lambda>n. 1 + n) (getNc h string st) else Some (st + 1)) of
           None \<Rightarrow> None
         | Some m \<Rightarrow>
             (case getNc h (drop (nat st) string) (int ov1 - st) of
                None \<Rightarrow> None
              | Some l \<Rightarrow>
                  Some (if st > 0 \<and> m \<le> 0 then NA_INTEGER else m,
                        if l < 0 then NA_INTEGER else l,
                        (st > 0 \<and> m \<le> 0) \<or> l < 0))))"

record pgreg_state =
  p_start :: int
  p_foundAny :: bool
  p_matchbuf :: "int list"
  p_matchlenbuf :: "int list"
  p_warn :: "warning list"

partial_function (option) R_pcre2_gregexpr_loop ::
  "host \<Rightarrow> pcre2_code \<Rightarrow> cstring \<Rightarrow> bool \<Rightarrow> nat \<Rightarrow> pgreg_state \<Rightarrow> pgreg_state option" where
  \<comment> \<open>\<open>while (!foundAll)\<close> of \<open>R_pcre2_gregexpr\<close> for the element with index \<open>n\<close>.  The
      capture buffers are written but never read by the loop; they are left out.\<close>
  "R_pcre2_gregexpr_loop h re string use_UTF8 n st =
     (let r = fst (pcre2_match h re string (nat (p_start st)) 0);
          ov = snd (pcre2_match h re string (nat (p_start st)) 0);
          w = p_warn st @ R_pcre_exec_error r n
      in if r \<ge> 0 then
           (case ovector_extract_start_length h use_UTF8 (ovec_at ov 0) (ovec_at ov 1) string of
              None \<Rightarrow> None
            | Some (m, l, fa) \<Rightarrow>
                (let st1 = st \<lparr> p_foundAny := True,
                                p_matchbuf := p_matchbuf st @ [m],
                                p_matchlenbuf := p_matchlenbuf st @ [l],
                                p_warn := w,
                                p_start := (if ovec_at ov 1 = ovec_at ov 0 then int (ovec_at ov 0) + 1
                                            else int (ovec_at ov 1)) \<rparr>
                 in if fa \<or> p_start st1 \<ge> int (length string) then Some st1
                    else R_pcre2_gregexpr_loop h re string use_UTF8 n st1))
         else Some (st \<lparr> p_warn := w \<rparr>))"

definition R_pcre2_gregexpr ::
  "host \<Rightarrow> pcre2_code \<Rightarrow> cstring \<Rightarrow> bool \<Rightarrow> nat \<Rightarrow> (int list \<times> int list \<times> warning list) option" where
  "R_pcre2_gregexpr h re string use_UTF8 n =
     map_option
       (\<lambda>st. if p_foundAny st then (p_matchbuf st, p_matchlenbuf st, p_warn st)
             else ([-1], [-1], p_warn st))
       (R_pcre2_gregexpr_loop h re string use_UTF8 n
          \<lparr> p_start = 0, p_foundAny = False, p_matchbuf = [], p_matchlenbuf = [], p_warn = [] \<rparr>)"

section \<open>\<open>do_grepraw\<close>\<close>

type_synonym Rbyte = "8 word"

function fgrepraw1 :: "Rbyte list \<Rightarrow> Rbyte list \<Rightarrow> nat \<Rightarrow> nat option" where
  \<comment> \<open>the four cases of the \<open>switch\<close> are the same search, written out for needles of
      1, 2, 3 and more bytes: the first position from \<open>offset\<close> where the needle stands;
      \<open>None\<close> is \<open>(R_size_t) -1\<close>.  The needle is never empty at the calls.\<close>
  "fgrepraw1 pat text off =
     (if length text < length pat then None
      else if off < length text - (length pat - 1) then
        (if take (length pat) (drop off text) = pat then Some off
         else fgrepraw1 pat text (off + 1))
      else None)"
  by pat_completeness auto
termination
  by (relation "measure (\<lambda>(pat, text, off). length text - off)") auto

partial_function (option) fgrepraw_all :: "Rbyte list \<Rightarrow> Rbyte list \<Rightarrow> nat \<Rightarrow> int list \<Rightarrow> int list option" where
  \<comment> \<open>\<open>while (offset < n) { offset = fgrepraw1(pat, text, offset); if (offset == -1) break;
      ...; offset += LENGTH(pat); }\<close>, with the second pass that continues after the
      mini-buffer: the 1-based positions of all matches\<close>
  "fgrepraw_all pat text off matches =
     (if off < length text then
        (case fgrepraw1 pat text off of
           None \<Rightarrow> Some matches
         | Some r \<Rightarrow> fgrepraw_all pat text (r + length pat) (matches @ [int r + 1]))
      else Some matches)"

fun raw_pieces :: "Rbyte list \<Rightarrow> nat \<Rightarrow> (int \<times> int) list \<Rightarrow> Rbyte list list" where
  \<comment> \<open>the pieces of \<open>text\<close> around the matches, each given by its 1-based start and its
      length: before every match, and after the last one\<close>
  "raw_pieces text pos [] = [drop pos text]"
| "raw_pieces text pos ((m, l) # ms) =
     take (nat (m - 1) - pos) (drop pos text) # raw_pieces text (nat (m - 1 + l)) ms"

datatype raw_ans = RInt "int list" | RRaw "Rbyte list" | RList "Rbyte list list"

record grepraw_flags =
  r_igcase_opt :: bool
  r_fixed_opt :: bool
  r_value :: bool
  r_all :: bool
  r_invert :: bool

definition do_grepraw_flags ::
  "bool option \<Rightarrow> bool option \<Rightarrow> bool option \<Rightarrow> bool option \<Rightarrow> bool option
   \<Rightarrow> warning list \<times> grepraw_flags" where
  "do_grepraw_flags igcase fixed value all invt =
     (let fl = \<lparr> r_igcase_opt = na_false igcase, r_fixed_opt = na_false fixed,
                  r_value = na_false value, r_all = na_false all, r_invert = na_false invt \<rparr>;
          w1 = (if r_fixed_opt fl \<and> r_igcase_opt fl then [ArgumentIgnored ''ignore.case = TRUE''] else [])
      in if r_invert fl \<and> \<not> r_value fl
         then (w1 @ [ArgumentIgnored ''invert = TRUE''], fl \<lparr> r_invert := False \<rparr>)
         else (w1, fl))"

definition grepraw_fixed :: "grepraw_flags \<Rightarrow> Rbyte list \<Rightarrow> Rbyte list \<Rightarrow> nat \<Rightarrow> raw_ans option" where
  \<comment> \<open>the branch \<open>if (fixed_opt)\<close>, with \<open>offset\<close> already 0-based\<close>
  "grepraw_fixed fl pat text off =
     (if length pat = 0 then
        Some (if r_value fl then (if r_all fl then RList [] else RRaw []) else RInt [])
      else if \<not> r_all fl then
        (case fgrepraw1 pat text off of
           None \<Rightarrow>
             Some (if r_invert fl then (if r_value fl then RRaw text else RInt [1])
                   else (if r_value fl then RRaw [] else RInt []))
         | Some res \<Rightarrow>
             Some (if r_invert fl then
                     (if \<not> r_value fl then RInt [(if res = 0 then int (length pat) else 0) + 1]
                      else RRaw (take res text @ drop (res + length pat) text))
                   else if \<not> r_value fl then RInt [int res + 1]
                   else RRaw pat))
      else
        (case fgrepraw_all pat text off [] of
           None \<Rightarrow> None
         | Some matches \<Rightarrow>
             Some (if r_value fl then
                     (if r_invert fl then
                        (if matches = [] then RRaw text
                         else RList (raw_pieces text 0 (map (\<lambda>m. (m, int (length pat))) matches)))
                      else RList (map (\<lambda>m. pat) matches))
                   else RInt matches)))"

record rawall_state =
  a_offset :: nat
  a_eflags :: int
  a_nmatches :: nat
  a_res :: "(int \<times> int) list"
  a_warn :: "warning list"

partial_function (option) grepraw_all_loop ::
  "host \<Rightarrow> Rbyte list \<times> int \<Rightarrow> Rbyte list \<Rightarrow> rawall_state \<Rightarrow> rawall_state option" where
  \<comment> \<open>\<open>while (1)\<close> of the match-all branch.  The chain of integer buffers holds the start
      (1-based) and the length of every match; it is a list here.\<close>
  "grepraw_all_loop h reg text st =
     (let x = tre_regnexecb h reg (drop (a_offset st) text) (a_eflags st) in
      if fst x \<noteq> 0 then Some st
      else
        (let so = fst (snd x); eo = snd (snd x);
             st1 = st \<lparr> a_eflags := (if a_nmatches st = 0 then REG_NOTBOL else a_eflags st),
                         a_res := a_res st @ [(so + 1 + int (a_offset st), eo - so)],
                         a_offset := size_t_of (int (a_offset st) + eo),
                         a_nmatches := a_nmatches st + 1 \<rparr>
         in if eo = 0 then
              (let y = tre_regnexecb h reg (drop (a_offset st1) text) (a_eflags st1);
                   infinite_match = (if a_nmatches st1 = 1
                                     then \<not> (fst y \<noteq> 0 \<or> snd (snd y) \<noteq> 0) else True)
               in Some (st1 \<lparr> a_warn := a_warn st1 @
                                 (if infinite_match then [InfiniteEmptyMatch] else []) \<rparr>))
            else if a_offset st1 \<ge> length text then Some st1
            else grepraw_all_loop h reg text st1))"

definition grepraw_regex ::
  "host \<Rightarrow> grepraw_flags \<Rightarrow> Rbyte list \<Rightarrow> Rbyte list \<Rightarrow> nat
   \<Rightarrow> (warning list \<times> (error + raw_ans)) option" where
  \<comment> \<open>the rest of \<open>do_grepraw\<close>, for an extended regular expression\<close>
  "grepraw_regex h fl pat text off =
     (let cflags = (if r_igcase_opt fl then REG_EXTENDED + REG_ICASE else REG_EXTENDED) in
      if tre_regncompb h pat cflags \<noteq> 0 then Some ([], Inl InvalidRegex)
      else if \<not> r_all fl then
        (let x = tre_regnexecb h (pat, cflags) (drop off text) 0;
             so = fst (snd x); eo = snd (snd x)
         in Some ([], Inr
              (if r_value fl then
                 (if fst x \<noteq> 0 \<or> eo = so then (if r_invert fl then RRaw text else RRaw [])
                  else if r_invert fl then RRaw (take (nat so) text @ drop (nat eo) text)
                  else RRaw (take (nat (eo - so)) (drop (off + nat so) text)))
               else if fst x = 0 then RInt [so + 1 + int off] else RInt [])))
      else
        (case grepraw_all_loop h (pat, cflags) text
                \<lparr> a_offset = off, a_eflags = 0, a_nmatches = 0, a_res = [], a_warn = [] \<rparr> of
           None \<Rightarrow> None
         | Some st \<Rightarrow>
             Some (a_warn st, Inr
               (if r_value fl then
                  (if r_invert fl then RList (raw_pieces text 0 (a_res st))
                   else RList (map (\<lambda>(m, l). take (nat l) (drop (nat (m - 1)) text)) (a_res st)))
                else RInt (map fst (a_res st))))))"

definition do_grepraw_run ::
  "host \<Rightarrow> Rbyte list \<Rightarrow> Rbyte list \<Rightarrow> int \<Rightarrow> warning list \<Rightarrow> grepraw_flags
   \<Rightarrow> (warning list \<times> (error + raw_ans)) option" where
  \<comment> \<open>\<open>do_grepraw\<close> after the flags are taken in, with the warnings \<open>w\<close> signalled so far\<close>
  "do_grepraw_run h pat text offs w fl =
     (let off = size_t_of offs
      in if off < 1 then Some (w, Inl (InvalidArgument ''offset''))
         else if off > length text then Some (w, Inr (RInt []))
         else if r_fixed_opt fl then
           map_option (\<lambda>r. (w, Inr r)) (grepraw_fixed fl pat text (off - 1))
         else
           map_option (\<lambda>(w', r). (w @ w', r)) (grepraw_regex h fl pat text (off - 1)))"

definition do_grepraw ::
  "host \<Rightarrow> Rbyte list \<Rightarrow> Rbyte list \<Rightarrow> int
   \<Rightarrow> bool option \<Rightarrow> bool option \<Rightarrow> bool option \<Rightarrow> bool option \<Rightarrow> bool option
   \<Rightarrow> (warning list \<times> (error + raw_ans)) option" where
  \<comment> \<open>\<open>pat\<close> and \<open>text\<close> are raw vectors, so the \<open>isRaw\<close> tests hold by their type;
      \<open>offs\<close> is the value of \<open>asInteger\<close>, converted to the unsigned \<open>R_size_t\<close>\<close>
  "do_grepraw h pat text offs igcase fixed value all invt =
     do_grepraw_run h pat text offs
       (fst (do_grepraw_flags igcase fixed value all invt))
       (snd (do_grepraw_flags igcase fixed value all invt))"

section \<open>\<open>jit_stack_size\<close>\<close>

text \<open>
  A \<open>double\<close> is a real number or one of the special values.  For the finite doubles
  from 0 to 1000 the product \<open>xdouble*1024*1024\<close> is exact, and the conversion to \<open>int\<close>
  truncates, so the model computes on the reals.  \<open>getenv\<close> reads the environment, a map
  from names to values; \<open>R_strtod\<close> is not part of the sources and is a parameter.
\<close>

datatype double = Finite real | PosInf | NegInf | NaN

definition JIT_STACK_MAX :: int where
  "JIT_STACK_MAX = 64 * 1024 * 1024"

definition jit_stack_size :: "(string \<Rightarrow> string option) \<Rightarrow> (string \<Rightarrow> double) \<Rightarrow> warning list \<times> int" where
  "jit_stack_size getenv R_strtod =
     (case getenv ''R_PCRE_JIT_STACK_MAXSIZE'' of
        None \<Rightarrow> ([], JIT_STACK_MAX)
      | Some p \<Rightarrow>
          (case R_strtod p of
             Finite x \<Rightarrow>
               (if x \<ge> 0 \<and> x \<le> 1000 then ([], \<lfloor>x * 1024 * 1024\<rfloor>)
                else ([JitStackInvalid], JIT_STACK_MAX))
           | _ \<Rightarrow> ([JitStackInvalid], JIT_STACK_MAX)))"

section \<open>What the engines are assumed to do, and notions used in the statements\<close>

text \<open>
  The engines are parameters.  The statements about the matching loops assume of them
  what the loops assume: a reported match lies inside the searched string, with its start
  before its end, and PCRE2 reports no match that starts before the offset it was given.
\<close>

definition tre_exec_ok :: "('c list \<Rightarrow> int \<Rightarrow> int \<times> regmatch_t list) \<Rightarrow> bool" where
  "tre_exec_ok exec =
     (\<forall>t e. fst (exec t e) = 0 \<longrightarrow>
        0 \<le> fst (regmatch_at (snd (exec t e)) 0) \<and>
        fst (regmatch_at (snd (exec t e)) 0) \<le> snd (regmatch_at (snd (exec t e)) 0) \<and>
        snd (regmatch_at (snd (exec t e)) 0) \<le> int (length t))"

definition pcre_match_ok :: "host \<Rightarrow> pcre2_code \<Rightarrow> cstring \<Rightarrow> bool" where
  "pcre_match_ok h re s =
     (\<forall>start e. fst (pcre2_match h re s start e) \<ge> 0 \<longrightarrow>
        start \<le> ovec_at (snd (pcre2_match h re s start e)) 0 \<and>
        ovec_at (snd (pcre2_match h re s start e)) 0 \<le> ovec_at (snd (pcre2_match h re s start e)) 1 \<and>
        ovec_at (snd (pcre2_match h re s start e)) 1 \<le> length s)"


definition utf8clen_ok :: "host \<Rightarrow> bool" where
  "utf8clen_ok h = (\<forall>c. utf8clen h c \<ge> 1)"

text \<open>
  The frame of a substitution: \<open>seg s a b\<close> is the part of the subject from offset \<open>a\<close> up
  to \<open>b\<close>.  \<open>frame s pos xs\<close> walks the matches from left to right: before each match it
  copies the subject from the end of the previous match (\<open>pos\<close> at first) to the start of
  this one, then the text given for the match; after the last match it copies the rest
  of the subject.  \<open>ranges_ok n pos ms\<close> says that the matches follow one another inside
  a subject of \<open>n\<close> bytes.
\<close>

definition seg :: "'c list \<Rightarrow> int \<Rightarrow> int \<Rightarrow> 'c list" where
  "seg s a b = take (nat (b - a)) (drop (nat a) s)"


fun ranges_ok :: "int \<Rightarrow> int \<Rightarrow> (int \<times> int) list \<Rightarrow> bool" where
  "ranges_ok n pos [] = (0 \<le> pos \<and> pos \<le> n)"
| "ranges_ok n pos ((a, b) # ms) = (0 \<le> pos \<and> pos \<le> a \<and> a \<le> b \<and> ranges_ok n b ms)"


fun frame_out :: "'c list \<Rightarrow> int \<Rightarrow> ((int \<times> int) \<times> 'c list) list \<Rightarrow> 'c list" where
  \<comment> \<open>the frame without the rest of the subject after the last match\<close>
  "frame_out s pos [] = []"
| "frame_out s pos (((a, b), r) # xs) = seg s pos a @ r @ frame_out s b xs"

definition rend :: "int \<Rightarrow> (int \<times> int) list \<Rightarrow> int" where
  "rend pos ms = (if ms = [] then pos else snd (last ms))"

definition gsub_inv :: "'c list \<Rightarrow> 'c gsub_state \<Rightarrow> bool" where
  \<comment> \<open>the invariant of the matching loops\<close>
  "gsub_inv s st =
     (0 \<le> offset st \<and> offset st \<le> int (length s) \<and>
      ranges_ok (int (length s)) 0 (matched st) \<and> rend 0 (matched st) \<le> offset st \<and>
      (\<exists>rs. length rs = length (matched st) \<and>
            u st = frame_out s 0 (zip (matched st) rs) @ seg s (rend 0 (matched st)) (offset st)))"


text \<open>
  The invariants of the all-matches loops of gregexpr and what holds of their results:
  the positions found so far lie before the search offset and increase, and every match
  has moved the offset forward.
\<close>

definition greg_inv :: "'c list \<Rightarrow> greg_state \<Rightarrow> bool" where
  "greg_inv s st =
     (g_offset st \<le> length s + 1 \<and> length (g_matchbuf st) \<le> g_offset st \<and>
      length (g_matchlenbuf st) = length (g_matchbuf st) \<and>
      (\<forall>p \<in> set (g_matchbuf st). p \<le> int (g_offset st)) \<and>
      sorted_wrt (<) (g_matchbuf st) \<and>
      (g_foundAny st \<longleftrightarrow> g_matchbuf st \<noteq> []) \<and>
      InfiniteEmptyMatch \<notin> set (g_warn st))"

definition greg_post :: "'c list \<Rightarrow> int list \<times> int list \<times> warning list \<Rightarrow> bool" where
  "greg_post s r =
     (case r of (ms, ls, ws) \<Rightarrow>
        ms \<noteq> [] \<and> length ms \<le> length s + 1 \<and> length ls = length ms \<and>
        InfiniteEmptyMatch \<notin> set ws)"

definition pgreg_inv :: "cstring \<Rightarrow> pgreg_state \<Rightarrow> bool" where
  "pgreg_inv s st =
     (0 \<le> p_start st \<and> p_start st \<le> int (length s) \<and>
      int (length (p_matchbuf st)) \<le> p_start st \<and>
      length (p_matchlenbuf st) = length (p_matchbuf st) \<and>
      (p_foundAny st \<longleftrightarrow> p_matchbuf st \<noteq> []) \<and>
      InfiniteEmptyMatch \<notin> set (p_warn st))"





text \<open>
  A host for the examples: a single-byte locale where every string is valid, and toy
  engines that know two patterns, the empty one, which matches the empty string where
  the search starts, and a pattern of one byte, which matches the first such byte.
\<close>

definition test_tre :: "cstring \<Rightarrow> cstring \<Rightarrow> int \<times> regmatch_t list" where
  "test_tre p t =
     (case p of
        [] \<Rightarrow> (0, [(0, 0)])
      | c # _ \<Rightarrow> (if scan_byte c t 0 \<ge> 0 then (0, [(scan_byte c t 0, scan_byte c t 0 + 1)])
                 else (1, [])))"

definition test_pcre :: "cstring \<Rightarrow> cstring \<Rightarrow> nat \<Rightarrow> int \<times> nat list" where
  "test_pcre p s start =
     (if start > length s then (-1, [])
      else
        (case p of
           [] \<Rightarrow> (1, [start, start])
         | c # _ \<Rightarrow>
             (if scan_byte c (drop start s) 0 \<ge> 0
              then (1, [start + nat (scan_byte c (drop start s) 0),
                        start + nat (scan_byte c (drop start s) 0) + 1])
              else (-1, []))))"

definition test_host :: host where
  "test_host =
     \<lparr> mbcslocale = False, utf8locale = False, latin1locale = False,
       translateChar = R_CHAR, translateCharUTF8 = R_CHAR,
       wtransChar = (\<lambda>x. map of_char (R_CHAR x)),
       utf8Valid = (\<lambda>s. True), mbcsValid = (\<lambda>s. True),
       utf8clen = (\<lambda>c. 1), Mbrtowc = (\<lambda>s. 1),
       wcstoutf8 = map char_of,
       utf8towcs = (\<lambda>s. (int (length s), map of_char s)),
       towctrans = (\<lambda>up c. c), toupper = (\<lambda>c. c), tolower = (\<lambda>c. c),
       markKnown = (\<lambda>s x. mkChar s),
       tre_regcompb = (\<lambda>p f. 0), tre_regwcomp = (\<lambda>p f. 0),
       tre_regexecb = (\<lambda>reg t n e. case reg of Regex p f \<Rightarrow> test_tre p t | WRegex p f \<Rightarrow> (1, [])),
       tre_regwexec = (\<lambda>reg t n e. (1, [])),
       pcre2_compile = (\<lambda>p u c. True),
       pcre2_match = (\<lambda>re s start e. test_pcre (pc_pattern re) s start),
       tre_regncompb = (\<lambda>p f. 0),
       tre_regnexecb = (\<lambda>reg t e. (1, (0, 0))) \<rparr>"

text \<open>
  The loops are run through their unfolding equations.
\<close>

declare gsub_fixed_fill.simps [code]
declare gsub_tre_loop.simps [code]
declare utf8_next.simps [code]
declare gsub_pcre_loop.simps [code]
declare gregexpr_Regexc_loop.simps [code]
declare getNc_loop.simps [code]
declare R_pcre2_gregexpr_loop.simps [code]
declare fgrepraw_all.simps [code]
declare grepraw_all_loop.simps [code]

section \<open>Lemmas\<close>

subsection \<open>Argument intake\<close>

lemma size_t_of_id: "0 \<le> x \<Longrightarrow> x < 2 ^ 64 \<Longrightarrow> size_t_of x = nat x"
  by (simp add: size_t_of_def)

lemma gsub_flags_fixed: "fixed_opt (snd (do_gsub_flags igcase perl fixed bytes)) = na_false fixed"
  by (simp add: do_gsub_flags_def Let_def)

lemma grep_flags_value: "value_opt (snd (do_grep_flags igcase value perl fixed bytes invt)) = na_false value"
  by (simp add: do_grep_flags_def Let_def)



lemma gsub_compile_fixed:
  "fixed_opt fl \<Longrightarrow> gsub_compile h fl md spat p r
      = ([], if length spat = 0 then Inl ZeroLengthPattern else Inr FixedEng)"
  by (simp add: gsub_compile_def)

lemma gsub_classify_igcase [simp]:
  "gsub_classify h (fl \<lparr> igcase_opt := x \<rparr>) p r text = gsub_classify h fl p r text"
  by (simp add: gsub_classify_def)










subsection \<open>Errors of sub and gsub\<close>

lemma grow_error: "grow n need = Inl e \<Longrightarrow> e = ResultTooLong"
  by (simp add: grow_def split: if_splits)

lemma gsub_grow_Abort: "gsub_grow ns maxrep f st = Abort e \<Longrightarrow> e = ResultTooLong"
  by (auto simp: gsub_grow_def split: sum.splits dest: grow_error)

lemma gsub_grow_not_Break [simp]: "gsub_grow ns maxrep f st \<noteq> Break st'"
  by (simp add: gsub_grow_def split: sum.splits)

lemma gsub_tre_body_Abort:
  "gsub_tre_body code z srep global s ns maxrep st regmatch = Abort e \<Longrightarrow> e = ResultTooLong"
  unfolding gsub_tre_body_def Let_def
  by (simp split: if_splits) (erule gsub_grow_Abort)+

lemma gsub_tre_loop_error':
  assumes "gsub_tre_loop exec code z srep global s ns maxrep st = Some r"
  shows "\<forall>e. r = Inl e \<longrightarrow> e = ResultTooLong"
  by (rule gsub_tre_loop.raw_induct
        [where P = "\<lambda>exec code z srep global s ns maxrep st r. \<forall>e. r = Inl e \<longrightarrow> e = ResultTooLong",
         OF _ assms])
     (auto split: if_splits loop_ctl.splits dest: gsub_tre_body_Abort)

lemma gsub_tre_loop_error:
  "gsub_tre_loop exec code z srep global s ns maxrep st = Some (Inl e) \<Longrightarrow> e = ResultTooLong"
  by (drule gsub_tre_loop_error') simp

lemma gsub_pcre_body_Abort:
  "gsub_pcre_body h srep global use_UTF8 s ns maxrep st ncap ov = Some (Abort e) \<Longrightarrow> e = ResultTooLong"
  unfolding gsub_pcre_body_def Let_def
  by (auto split: if_splits dest: gsub_grow_Abort)

lemma gsub_pcre_loop_error':
  assumes "gsub_pcre_loop h re srep global use_UTF8 s ns maxrep st = Some r"
  shows "\<forall>e. r = Inl e \<longrightarrow> e = ResultTooLong"
  by (rule gsub_pcre_loop.raw_induct
        [where P = "\<lambda>h re srep global use_UTF8 s ns maxrep st r. \<forall>e. r = Inl e \<longrightarrow> e = ResultTooLong",
         OF _ assms])
     (auto split: if_splits loop_ctl.splits option.splits dest: gsub_pcre_body_Abort)

lemma gsub_pcre_loop_error:
  "gsub_pcre_loop h re srep global use_UTF8 s ns maxrep st = Some (Inl e) \<Longrightarrow> e = ResultTooLong"
  by (drule gsub_pcre_loop_error') simp

lemma gsub_finish_error: "gsub_finish rep s ns st = Inl e \<Longrightarrow> e = ResultTooLong"
  by (auto simp: gsub_finish_def split: if_splits sum.splits dest: grow_error)

lemma gsub_tre_elt_error:
  "gsub_tre_elt h reg srep rep global i s = Some (w, Inl e) \<Longrightarrow> e = ResultTooLong"
  by (auto simp: gsub_tre_elt_def Let_def split: option.splits sum.splits
           dest: gsub_tre_loop_error gsub_finish_error)

lemma gsub_pcre_elt_error:
  "gsub_pcre_elt h re srep rep global use_UTF8 i s = Some (w, Inl e) \<Longrightarrow> e = ResultTooLong"
  by (auto simp: gsub_pcre_elt_def Let_def split: option.splits sum.splits
           dest: gsub_pcre_loop_error gsub_finish_error)

lemma gsub_wc_elt_error:
  "gsub_wc_elt h reg wrep rep global s = Some (Inl e) \<Longrightarrow> e = ResultTooLong"
  by (auto simp: gsub_wc_elt_def Let_def split: option.splits sum.splits
           dest: gsub_tre_loop_error gsub_finish_error)

lemma map_sum_Inl_iff: "map_sum id f r = Inl e \<longleftrightarrow> r = Inl e"
  by (cases r) auto

lemma gsub_elt_error:
  "gsub_elt h global rep0 md spat srep eng i x = Some (w, Inl e) \<Longrightarrow>
   e = ResultTooLong \<or> e = InputInvalidUTF8 (i + 1) \<or> e = InputInvalidLocale (i + 1)"
  by (auto simp: gsub_elt_def Let_def map_sum_Inl_iff split: if_splits gsub_engine.splits
           dest: gsub_tre_elt_error gsub_pcre_elt_error gsub_wc_elt_error)

lemma gsub_elts_error:
  "gsub_elts h global rep0 md spat srep eng i xs = Some (w, Inl e) \<Longrightarrow> e \<noteq> ZeroLengthPattern"
proof (induction xs arbitrary: i w)
  case Nil
  then show ?case by simp
next
  case (Cons x xs)
  then show ?case
    by (fastforce split: option.splits sum.splits dest: gsub_elt_error)
qed

lemma gsub_compile_error:
  "\<not> fixed_opt fl \<Longrightarrow> gsub_compile h fl md spat p r = (w, Inl e) \<Longrightarrow> e = InvalidRegex"
  by (auto simp: gsub_compile_def R_pcre2_prepare_def reg_report_def Let_def
           split: if_splits prod.splits sum.splits)

lemma gsub_translate_error:
  "gsub_translate h md p r = Inl e \<Longrightarrow> e \<noteq> ZeroLengthPattern"
  by (auto simp: gsub_translate_def split: if_splits)

subsection \<open>The frame of a substitution\<close>










lemma gsub_inv_upd [simp]:
  "gsub_inv s (st \<lparr> nns := n \<rparr>) = gsub_inv s st"
  "gsub_inv s (st \<lparr> eflags := e \<rparr>) = gsub_inv s st"
  "gsub_inv s (st \<lparr> rc := r \<rparr>) = gsub_inv s st"
  "gsub_inv s (st \<lparr> nmatch := k \<rparr>) = gsub_inv s st"
  "gsub_inv s (st \<lparr> last_end := l \<rparr>) = gsub_inv s st"
  by (simp_all add: gsub_inv_def)





lemma gsub_tre_emit_offset [simp]:
  "offset (gsub_tre_emit code z srep s st regmatch) = offset st + snd (regmatch_at regmatch 0)"
  by (simp add: gsub_tre_emit_def Let_def)





lemma gsub_skip_offset [simp]: "offset (gsub_skip z s st) = offset st + 1"
  by (simp add: gsub_skip_def)





lemma gsub_pcre_emit_offset [simp]:
  "offset (gsub_pcre_emit h srep use_UTF8 s st ncap ov) = int (ovec_at ov 1)"
  by (simp add: gsub_pcre_emit_def Let_def)













subsection \<open>The engines of the examples\<close>

lemma scan_byte_bounds:
  "scan_byte c t i = -1 \<or> (i \<le> scan_byte c t i \<and> scan_byte c t i < i + int (length t))"
  by (induction c t i rule: scan_byte.induct) auto

lemma scan_byte_nonneg:
  assumes "0 \<le> scan_byte c t 0"
  shows "scan_byte c t 0 < int (length t)"
  using scan_byte_bounds[of c t 0] assms by auto

lemma test_tre_ok: "tre_exec_ok (\<lambda>t e. test_tre p t)"
proof (cases p)
  case Nil
  then show ?thesis by (simp add: tre_exec_ok_def test_tre_def regmatch_at_def)
next
  case (Cons c p')
  show ?thesis
    unfolding tre_exec_ok_def
  proof (intro allI impI)
    fix t :: cstring and e :: int
    assume a: "fst (test_tre p t) = 0"
    then have n: "0 \<le> scan_byte c t 0"
      by (simp add: test_tre_def Cons split: if_splits)
    from scan_byte_nonneg[OF n] n
    show "0 \<le> fst (regmatch_at (snd (test_tre p t)) 0) \<and>
          fst (regmatch_at (snd (test_tre p t)) 0) \<le> snd (regmatch_at (snd (test_tre p t)) 0) \<and>
          snd (regmatch_at (snd (test_tre p t)) 0) \<le> int (length t)"
      by (simp add: test_tre_def Cons regmatch_at_def)
  qed
qed

lemma test_pcre_ok: "pcre_match_ok test_host re s"
  unfolding pcre_match_ok_def
proof (intro allI impI)
  fix start :: nat and e :: int
  let ?m = "pcre2_match test_host re s start e"
  have m: "?m = test_pcre (pc_pattern re) s start" by (simp add: test_host_def)
  assume "0 \<le> fst ?m"
  then have a: "0 \<le> fst (test_pcre (pc_pattern re) s start)" by (simp only: m)
  then have st: "start \<le> length s" by (simp add: test_pcre_def split: if_splits)
  show "start \<le> ovec_at (snd ?m) 0 \<and> ovec_at (snd ?m) 0 \<le> ovec_at (snd ?m) 1 \<and>
        ovec_at (snd ?m) 1 \<le> length s"
  proof (cases "pc_pattern re")
    case Nil
    with st show ?thesis by (simp add: m test_pcre_def ovec_at_def)
  next
    case (Cons c p')
    with a st have n: "0 \<le> scan_byte c (drop start s) 0"
      by (simp add: test_pcre_def split: if_splits)
    from scan_byte_nonneg[OF n] have "nat (scan_byte c (drop start s) 0) < length s - start"
      using n by simp
    with st n Cons show ?thesis by (simp add: m test_pcre_def ovec_at_def)
  qed
qed



subsection \<open>The number of matches and the capacity in the matching loops\<close>

lemma gsub_tre_emit_fields [simp]:
  "nmatch (gsub_tre_emit code z srep s st regmatch) = nmatch st + 1"
  "nns (gsub_tre_emit code z srep s st regmatch) = nns st"
  by (simp_all add: gsub_tre_emit_def Let_def)

lemma gsub_pcre_emit_fields [simp]:
  "nmatch (gsub_pcre_emit h srep use_UTF8 s st ncap ov) = nmatch st + 1"
  "nns (gsub_pcre_emit h srep use_UTF8 s st ncap ov) = nns st"
  by (simp_all add: gsub_pcre_emit_def Let_def)

lemma gsub_skip_fields [simp]:
  "nmatch (gsub_skip z s st) = nmatch st"
  "nns (gsub_skip z s st) = nns st"
  by (simp_all add: gsub_skip_def)







subsection \<open>A missing replacement\<close>














subsection \<open>The all-matches loops of gregexpr\<close>

lemma tre_exec_ok_drop:
  assumes "tre_exec_ok exec" "fst (exec (drop n s) e) = 0" "n \<le> length s"
  shows "0 \<le> fst (regmatch_at (snd (exec (drop n s) e)) 0)"
        "fst (regmatch_at (snd (exec (drop n s) e)) 0) \<le> snd (regmatch_at (snd (exec (drop n s) e)) 0)"
        "int n + snd (regmatch_at (snd (exec (drop n s) e)) 0) \<le> int (length s)"
proof -
  let ?t = "drop n s"
  from assms(1,2) have a: "0 \<le> fst (regmatch_at (snd (exec ?t e)) 0)"
    and b: "fst (regmatch_at (snd (exec ?t e)) 0) \<le> snd (regmatch_at (snd (exec ?t e)) 0)"
    and c: "snd (regmatch_at (snd (exec ?t e)) 0) \<le> int (length ?t)"
    unfolding tre_exec_ok_def by blast+
  show "0 \<le> fst (regmatch_at (snd (exec ?t e)) 0)" by (rule a)
  show "fst (regmatch_at (snd (exec ?t e)) 0) \<le> snd (regmatch_at (snd (exec ?t e)) 0)" by (rule b)
  have "int (length ?t) = int (length s) - int n" using assms(3) by simp
  with c show "int n + snd (regmatch_at (snd (exec ?t e)) 0) \<le> int (length s)" by linarith
qed

lemma size_t_of_nat: "0 \<le> x \<Longrightarrow> x < 2 ^ 64 \<Longrightarrow> int (size_t_of x) = x"
  by (simp add: size_t_of_def)

lemma sorted_wrt_snoc_less:
  "sorted_wrt (<) xs \<Longrightarrow> \<forall>p \<in> set xs. p < (y::int) \<Longrightarrow> sorted_wrt (<) (xs @ [y])"
  by (simp add: sorted_wrt_append)

lemma gregexpr_Regexc_loop_unfold:
  "gregexpr_Regexc_loop exec s i st =
     (if g_offset st < length s \<and> fst (exec (drop (g_offset st) s) (g_eflags st)) = 0 then
        gregexpr_Regexc_loop exec s i
              (st \<lparr> g_foundAny := True,
                    g_matchbuf := g_matchbuf st @
                      [int (g_offset st) + fst (regmatch_at (snd (exec (drop (g_offset st) s) (g_eflags st))) 0) + 1],
                    g_matchlenbuf := g_matchlenbuf st @
                      [snd (regmatch_at (snd (exec (drop (g_offset st) s) (g_eflags st))) 0)
                       - fst (regmatch_at (snd (exec (drop (g_offset st) s) (g_eflags st))) 0)],
                    g_offset := size_t_of
                      (if snd (regmatch_at (snd (exec (drop (g_offset st) s) (g_eflags st))) 0)
                          - fst (regmatch_at (snd (exec (drop (g_offset st) s) (g_eflags st))) 0) = 0
                       then int (g_offset st) + fst (regmatch_at (snd (exec (drop (g_offset st) s) (g_eflags st))) 0) + 1
                       else int (g_offset st) + snd (regmatch_at (snd (exec (drop (g_offset st) s) (g_eflags st))) 0)),
                    g_rc := 0,
                    g_eflags := REG_NOTBOL \<rparr>)
      else
        Some ((if \<not> g_foundAny st
               then st \<lparr> g_matchbuf := g_matchbuf st @ [-1],
                         g_matchlenbuf := g_matchlenbuf st @ [-1] \<rparr>
               else st)
              \<lparr> g_rc := (if g_offset st < length s
                         then fst (exec (drop (g_offset st) s) (g_eflags st)) else g_rc st),
                g_eflags := REG_NOTBOL,
                g_warn := g_warn st @
                  (if (if g_offset st < length s
                       then fst (exec (drop (g_offset st) s) (g_eflags st)) else g_rc st) = REG_ESPACE
                   then [OutOfMemory (i + 1)] else []) \<rparr>))"
  by (subst gregexpr_Regexc_loop.simps) (simp add: Let_def if_distrib[of size_t_of] cong: if_cong)

lemma gregexpr_Regexc_loop_total:
  assumes ok: "tre_exec_ok exec" and len: "length s < 2 ^ 31"
  shows "greg_inv s st \<Longrightarrow>
         \<exists>st'. gregexpr_Regexc_loop exec s i st = Some st' \<and>
               greg_post s (g_matchbuf st', g_matchlenbuf st', g_warn st') \<and>
               sorted_wrt (<) (g_matchbuf st')"
proof (induction "length s + 1 - g_offset st" arbitrary: st rule: less_induct)
  case less
  note inv = less.prems
  let ?x = "exec (drop (g_offset st) s) (g_eflags st)"
  let ?rm = "regmatch_at (snd ?x) 0"
  define off' where "off' = (if snd ?rm - fst ?rm = 0 then int (g_offset st) + fst ?rm + 1
                             else int (g_offset st) + snd ?rm)"
  define st2 where "st2 = st \<lparr> g_foundAny := True,
                    g_matchbuf := g_matchbuf st @ [int (g_offset st) + fst ?rm + 1],
                    g_matchlenbuf := g_matchlenbuf st @ [snd ?rm - fst ?rm],
                    g_offset := size_t_of off',
                    g_rc := 0,
                    g_eflags := REG_NOTBOL \<rparr>"
  define r where "r = (if g_offset st < length s then fst ?x else g_rc st)"
  define st' where "st' = (if \<not> g_foundAny st
               then st \<lparr> g_matchbuf := g_matchbuf st @ [-1],
                         g_matchlenbuf := g_matchlenbuf st @ [-1] \<rparr>
               else st)
              \<lparr> g_rc := r, g_eflags := REG_NOTBOL,
                g_warn := g_warn st @ (if r = REG_ESPACE then [OutOfMemory (i + 1)] else []) \<rparr>"
  have eq: "gregexpr_Regexc_loop exec s i st =
     (if g_offset st < length s \<and> fst ?x = 0 then gregexpr_Regexc_loop exec s i st2 else Some st')"
    unfolding st2_def st'_def off'_def r_def by (rule gregexpr_Regexc_loop_unfold)
  show ?case
  proof (cases "g_offset st < length s \<and> fst ?x = 0")
    case False
    have l: "gregexpr_Regexc_loop exec s i st = Some st'"
      by (simp only: eq if_not_P[OF False])
    from inv have "greg_post s (g_matchbuf st', g_matchlenbuf st', g_warn st') \<and>
                   sorted_wrt (<) (g_matchbuf st')"
      by (auto simp: greg_inv_def greg_post_def st'_def)
    with l show ?thesis by blast
  next
    case True
    then have lt: "g_offset st < length s" and m: "fst ?x = 0" by simp_all
    from lt have le: "g_offset st \<le> length s" by simp
    note c = tre_exec_ok_drop[OF ok m le]
    have o1: "int (g_offset st) + fst ?rm + 1 \<le> off'" using c by (simp add: off'_def)
    have o2: "off' \<le> int (length s) + 1" using c by (simp add: off'_def)
    have o3: "int (g_offset st) < off'" using o1 c(1) by linarith
    have "off' < 2 ^ 64" using o2 len by simp
    with o3 have so: "int (size_t_of off') = off'" by (intro size_t_of_nat) simp_all
    have go: "int (g_offset st2) = off'" by (simp add: st2_def so)
    have l: "gregexpr_Regexc_loop exec s i st = gregexpr_Regexc_loop exec s i st2"
      by (simp only: eq if_P[OF True])
    have srt: "sorted_wrt (<) (g_matchbuf st @ [int (g_offset st) + fst ?rm + 1])"
    proof (rule sorted_wrt_snoc_less)
      show "sorted_wrt (<) (g_matchbuf st)" using inv by (simp add: greg_inv_def)
      show "\<forall>p \<in> set (g_matchbuf st). p < int (g_offset st) + fst ?rm + 1"
        using inv c(1) by (auto simp: greg_inv_def)
    qed
    have bnd: "\<forall>p \<in> set (g_matchbuf st @ [int (g_offset st) + fst ?rm + 1]). p \<le> off'"
      using inv o1 o3 by (auto simp: greg_inv_def)
    have inv2: "greg_inv s st2"
      unfolding greg_inv_def
    proof (intro conjI)
      show "g_offset st2 \<le> length s + 1" using go o2 by linarith
      show "length (g_matchbuf st2) \<le> g_offset st2"
        using inv go o3 by (simp add: st2_def greg_inv_def)
      show "length (g_matchlenbuf st2) = length (g_matchbuf st2)"
        using inv by (simp add: st2_def greg_inv_def)
      show "\<forall>p \<in> set (g_matchbuf st2). p \<le> int (g_offset st2)"
        using bnd unfolding go by (simp add: st2_def)
      show "sorted_wrt (<) (g_matchbuf st2)" using srt by (simp add: st2_def)
      show "g_foundAny st2 \<longleftrightarrow> g_matchbuf st2 \<noteq> []" by (simp add: st2_def)
      show "InfiniteEmptyMatch \<notin> set (g_warn st2)" using inv by (simp add: st2_def greg_inv_def)
    qed
    have "length s + 1 - g_offset st2 < length s + 1 - g_offset st"
      using go o3 o2 lt by linarith
    from less.hyps[OF this inv2] l show ?thesis by simp
  qed
qed

lemma gregexpr_Regexc_total:
  assumes ok: "tre_exec_ok exec" and len: "length s < 2 ^ 31"
  shows "\<exists>r. gregexpr_Regexc exec s i rc0 = Some r \<and> greg_post s r \<and> sorted_wrt (<) (fst r)"
proof -
  let ?st0 = "\<lparr> g_offset = 0, g_eflags = 0, g_rc = rc0, g_foundAny = False,
                 g_matchbuf = [], g_matchlenbuf = [], g_warn = [] \<rparr>"
  have "greg_inv s ?st0" by (simp add: greg_inv_def)
  from gregexpr_Regexc_loop_total[OF ok len this, of i] show ?thesis
    by (auto simp: gregexpr_Regexc_def)
qed

lemma getNc_loop_total:
  assumes "utf8clen_ok h"
  shows "\<exists>n. getNc_loop h s st i nc = Some n"
proof (induction "nat (st - i)" arbitrary: i nc rule: less_induct)
  case less
  show ?case
  proof (cases "i < st")
    case False
    then show ?thesis by (subst getNc_loop.simps) simp
  next
    case True
    from assms have "1 \<le> utf8clen h (celem NUL s i)" by (simp add: utf8clen_ok_def)
    with True have "nat (st - (i + utf8clen h (celem NUL s i))) < nat (st - i)" by linarith
    from less.hyps[OF this, of "nc + 1"] True show ?thesis
      by (subst getNc_loop.simps) simp
  qed
qed

lemma ovector_extract_total:
  assumes "utf8clen_ok h"
  shows "\<exists>m l fa. ovector_extract_start_length h utf ov0 ov1 s = Some (m, l, fa)"
proof (cases utf)
  case False
  then have "ovector_extract_start_length h utf ov0 ov1 s = Some (int ov0 + 1, int ov1 - int ov0, False)"
    by (simp add: ovector_extract_start_length_def Let_def)
  then show ?thesis by blast
next
  case True
  from getNc_loop_total[OF assms, of s "int ov0" 0 0] obtain a where
    a: "getNc h s (int ov0) = Some a" by (auto simp: getNc_def)
  from getNc_loop_total[OF assms, of "drop (nat (int ov0)) s" "int ov1 - int ov0" 0 0] obtain b where
    b: "getNc h (drop (nat (int ov0)) s) (int ov1 - int ov0) = Some b" by (auto simp: getNc_def)
  have "\<exists>r. ovector_extract_start_length h utf ov0 ov1 s = Some r"
    unfolding ovector_extract_start_length_def Let_def a b by (simp add: True)
  then show ?thesis by auto
qed

lemma R_pcre_exec_error_set: "InfiniteEmptyMatch \<notin> set (R_pcre_exec_error r n)"
  by (simp add: R_pcre_exec_error_def)

lemma R_pcre2_gregexpr_loop_total:
  assumes ok: "pcre_match_ok h re s" and uk: "utf8clen_ok h"
  shows "pgreg_inv s st \<Longrightarrow>
         \<exists>st'. R_pcre2_gregexpr_loop h re s utf n st = Some st' \<and>
               length (p_matchbuf st') \<le> length s + 1 \<and>
               length (p_matchlenbuf st') = length (p_matchbuf st') \<and>
               (p_foundAny st' \<longleftrightarrow> p_matchbuf st' \<noteq> []) \<and>
               InfiniteEmptyMatch \<notin> set (p_warn st')"
proof (induction "nat (int (length s) - p_start st)" arbitrary: st rule: less_induct)
  case less
  note inv = less.prems
  let ?m = "pcre2_match h re s (nat (p_start st)) 0"
  let ?w = "p_warn st @ R_pcre_exec_error (fst ?m) n"
  let ?ov0 = "ovec_at (snd ?m) 0"
  let ?ov1 = "ovec_at (snd ?m) 1"
  have w: "InfiniteEmptyMatch \<notin> set ?w" using inv by (simp add: pgreg_inv_def R_pcre_exec_error_set)
  show ?case
  proof (cases "fst ?m \<ge> 0")
    case False
    then have l: "R_pcre2_gregexpr_loop h re s utf n st = Some (st \<lparr> p_warn := ?w \<rparr>)"
      by (subst R_pcre2_gregexpr_loop.simps) (simp add: Let_def)
    from inv w show ?thesis unfolding l by (auto simp: pgreg_inv_def)
  next
    case True
    from ok True have c: "nat (p_start st) \<le> ?ov0" "?ov0 \<le> ?ov1" "?ov1 \<le> length s"
      unfolding pcre_match_ok_def by blast+
    from ovector_extract_total[OF uk, of utf ?ov0 ?ov1 s] obtain m l fa where
      e: "ovector_extract_start_length h utf ?ov0 ?ov1 s = Some (m, l, fa)" by blast
    define st1 where "st1 = st \<lparr> p_foundAny := True,
                                p_matchbuf := p_matchbuf st @ [m],
                                p_matchlenbuf := p_matchlenbuf st @ [l],
                                p_warn := ?w,
                                p_start := (if ?ov1 = ?ov0 then int ?ov0 + 1 else int ?ov1) \<rparr>"
    have eq: "R_pcre2_gregexpr_loop h re s utf n st =
       (if fa \<or> p_start st1 \<ge> int (length s) then Some st1
        else R_pcre2_gregexpr_loop h re s utf n st1)"
      unfolding st1_def
      by (subst R_pcre2_gregexpr_loop.simps)
         (simp only: Let_def e True if_True option.case prod.case)
    from inv have s0: "0 \<le> p_start st" by (simp add: pgreg_inv_def)
    have adv: "p_start st < p_start st1" using c s0 by (auto simp: st1_def)
    have cnt: "int (length (p_matchbuf st1)) \<le> p_start st1"
      using inv adv by (simp add: st1_def pgreg_inv_def)
    have up: "p_start st1 \<le> int (length s) + 1" using c by (auto simp: st1_def)
    have post1: "length (p_matchbuf st1) \<le> length s + 1 \<and>
               length (p_matchlenbuf st1) = length (p_matchbuf st1) \<and>
               (p_foundAny st1 \<longleftrightarrow> p_matchbuf st1 \<noteq> []) \<and>
               InfiniteEmptyMatch \<notin> set (p_warn st1)"
      using inv w cnt up by (simp add: st1_def pgreg_inv_def)
    show ?thesis
    proof (cases "fa \<or> p_start st1 \<ge> int (length s)")
      case True
      have "R_pcre2_gregexpr_loop h re s utf n st = Some st1" by (simp only: eq if_P[OF True])
      with post1 show ?thesis by blast
    next
      case False
      have l: "R_pcre2_gregexpr_loop h re s utf n st = R_pcre2_gregexpr_loop h re s utf n st1"
        by (simp only: eq if_not_P[OF False])
      from False have lt: "p_start st1 < int (length s)" by simp
      have inv1: "pgreg_inv s st1"
        using post1 cnt lt adv s0 w by (simp add: pgreg_inv_def st1_def)
      have "nat (int (length s) - p_start st1) < nat (int (length s) - p_start st)"
        using adv lt by linarith
      from less.hyps[OF this inv1] l show ?thesis by simp
    qed
  qed
qed

lemma R_pcre2_gregexpr_total:
  assumes ok: "pcre_match_ok h re s" and uk: "utf8clen_ok h"
  shows "\<exists>r. R_pcre2_gregexpr h re s utf n = Some r \<and> greg_post s r"
proof -
  let ?st0 = "\<lparr> p_start = 0, p_foundAny = False, p_matchbuf = [], p_matchlenbuf = [], p_warn = [] \<rparr>"
  have "pgreg_inv s ?st0" by (simp add: pgreg_inv_def)
  from R_pcre2_gregexpr_loop_total[OF ok uk this, of utf n] obtain st' where
    l: "R_pcre2_gregexpr_loop h re s utf n ?st0 = Some st'" and
    p: "length (p_matchbuf st') \<le> length s + 1"
       "length (p_matchlenbuf st') = length (p_matchbuf st')"
       "p_foundAny st' \<longleftrightarrow> p_matchbuf st' \<noteq> []"
       "InfiniteEmptyMatch \<notin> set (p_warn st')"
    by blast
  show ?thesis
  proof (cases "p_foundAny st'")
    case True
    with l have "R_pcre2_gregexpr h re s utf n = Some (p_matchbuf st', p_matchlenbuf st', p_warn st')"
      by (simp add: R_pcre2_gregexpr_def)
    moreover from p True have "greg_post s (p_matchbuf st', p_matchlenbuf st', p_warn st')"
      by (simp add: greg_post_def)
    ultimately show ?thesis by blast
  next
    case False
    with l have "R_pcre2_gregexpr h re s utf n = Some ([-1], [-1], p_warn st')"
      by (simp add: R_pcre2_gregexpr_def)
    moreover from p have "greg_post s ([-1], [-1], p_warn st')"
      by (simp add: greg_post_def)
    ultimately show ?thesis by blast
  qed
qed

subsection \<open>The capacity of the output buffer\<close>












subsection \<open>A replacement made of back-references\<close>





section \<open>Results\<close>

text \<open>
  C2 (as stated, refuted).  The claim says that splitting the empty string on a fixed
  non-empty separator yields the one-element result holding the empty string.  The code
  allocates \<open>ntok + (*bufp ? 1 : 0)\<close> tokens, which is zero for the empty string.
\<close>

theorem C2_split_empty_counterexample:
  "strsplit_fixed '','' '''' \<noteq> ['''']"
  by (simp add: strsplit_fixed_def cchar_def NUL_def)

text \<open>
  C2 (amended).  Splitting \<open>a,b,,c\<close> on the fixed separator \<open>,\<close> yields exactly the four
  tokens \<open>a\<close>, \<open>b\<close>, the empty string and \<open>c\<close>; splitting the empty string yields a
  result with no token at all.
\<close>

theorem C2_split_fixed:
  "strsplit_fixed '','' ''a,b,,c'' = [''a'', ''b'', '''', ''c''] \<and>
   strsplit_fixed '','' '''' = []"
  by (simp add: strsplit_fixed_def split_skip_def cchar_def NUL_def)

text \<open>
  C1 (as stated, refuted).  The claim says that no operation treats a missing pattern as
  an error and that gregexpr returns a list of single missing entries.  \<open>do_regexpr\<close>
  (regexpr and gregexpr) raises \<open>invalid 'pattern' argument\<close> when the first element
  of the pattern is \<open>NA_STRING\<close>.
\<close>

theorem C1_gregexpr_counterexample:
  "do_regexpr_args [NA_STRING] None None None None = ([], Inl (InvalidArgument ''pattern''))"
  by (simp add: do_regexpr_args_def na_false_def)

text \<open>
  C1 (amended).  When the first element of the pattern is the missing value: sub and gsub
  (with a replacement of at least one element) return a vector of missing text elements
  as long as the text; grep returns missing indices, or missing text elements when
  \<open>value\<close> is set; grepl returns missing booleans; regexpr, gregexpr and regexec
  raise the error \<open>invalid 'pattern' argument\<close>.
\<close>

theorem C1_missing_pattern:
  assumes "pat \<noteq> []" "pat ! 0 = NA_STRING"
  shows "(rep \<noteq> [] \<longrightarrow>
            (\<exists>w. do_gsub h global pat rep text igcase perl fixed bytes
                   = Some (w, Inr (replicate (length text) NA_STRING))))
       \<and> (\<exists>w. do_grep h grepl pat text igcase value perl fixed bytes invt
                = (w, Inr (if na_false value then StrVec (replicate (length text) NA_STRING)
                           else if grepl then LglVec (replicate (length text) None)
                           else IntVec (replicate (length text) None))))
       \<and> (\<exists>w. do_regexpr_args pat igcase perl fixed bytes = (w, Inl (InvalidArgument ''pattern'')))
       \<and> (\<exists>w. do_regexec_args pat igcase fixed bytes = (w, Inl (InvalidArgument ''pattern'')))"
proof (intro conjI impI)
  assume "rep \<noteq> []"
  with assms show "\<exists>w. do_gsub h global pat rep text igcase perl fixed bytes
                   = Some (w, Inr (replicate (length text) NA_STRING))"
    by (simp add: do_gsub_def do_gsub_run_def Let_def map_replicate_const)
next
  from assms show "\<exists>w. do_grep h grepl pat text igcase value perl fixed bytes invt
                = (w, Inr (if na_false value then StrVec (replicate (length text) NA_STRING)
                           else if grepl then LglVec (replicate (length text) None)
                           else IntVec (replicate (length text) None)))"
    by (simp add: do_grep_def do_grep_run_def Let_def grep_flags_value map_replicate_const)
next
  from assms show "\<exists>w. do_regexpr_args pat igcase perl fixed bytes = (w, Inl (InvalidArgument ''pattern''))"
    by (simp add: do_regexpr_args_def Let_def)
next
  from assms show "\<exists>w. do_regexec_args pat igcase fixed bytes = (w, Inl (InvalidArgument ''pattern''))"
    by (simp add: do_regexec_args_def Let_def)
qed

theorem C1_missing_pattern_witness:
  "do_gsub test_host True [NA_STRING] [CHARSXP ''x'' Ascii] [CHARSXP ''ab'' Ascii, CHARSXP ''c'' Ascii]
      None None None None = Some ([], Inr [NA_STRING, NA_STRING])
   \<and> do_grep test_host False [NA_STRING] [CHARSXP ''ab'' Ascii, CHARSXP ''c'' Ascii]
      None None None None None None = ([], Inr (IntVec [None, None]))"
proof -
  have a: "[NA_STRING] \<noteq> []" "[NA_STRING] ! 0 = NA_STRING" by simp_all
  from C1_missing_pattern[OF a, of "[CHARSXP ''x'' Ascii]" test_host True
      "[CHARSXP ''ab'' Ascii, CHARSXP ''c'' Ascii]" None None None None False None None]
  show ?thesis
    by (simp add: do_gsub_def do_gsub_run_def do_gsub_flags_def do_grep_def do_grep_run_def
          do_grep_flags_def na_false_def)
qed




text \<open>
  C6 (as stated, refuted).  The claim names the environment variable
  \<open>PCRE_JIT_STACK_MAXSIZE\<close>.  The code reads \<open>R_PCRE_JIT_STACK_MAXSIZE\<close>: with only the
  claimed variable set, to 32, the ceiling is still the default of 64 MB.
\<close>

theorem C6_env_name_counterexample:
  "jit_stack_size [''PCRE_JIT_STACK_MAXSIZE'' \<mapsto> ''32''] (\<lambda>p. Finite 32) = ([], 64 * 1024 * 1024)"
  by (simp add: jit_stack_size_def JIT_STACK_MAX_def)

text \<open>
  C6 (amended).  The environment variable \<open>R_PCRE_JIT_STACK_MAXSIZE\<close> sets the ceiling of
  the PCRE JIT stack as a floating-point number of megabytes: a value in \<open>[0, 1000]\<close> is
  accepted (the ceiling is that many times \<open>1024 * 1024\<close> bytes, truncated to an integer),
  any other value gives a warning and is ignored, and when the variable is absent or ignored
  the ceiling is 64 MB.
\<close>

theorem C6_jit_stack_size:
  "(getenv ''R_PCRE_JIT_STACK_MAXSIZE'' = None \<longrightarrow>
      jit_stack_size getenv R_strtod = ([], 64 * 1024 * 1024))
   \<and> (getenv ''R_PCRE_JIT_STACK_MAXSIZE'' = Some p \<and> R_strtod p = Finite x \<and> 0 \<le> x \<and> x \<le> 1000 \<longrightarrow>
      jit_stack_size getenv R_strtod = ([], \<lfloor>x * 1024 * 1024\<rfloor>))
   \<and> (getenv ''R_PCRE_JIT_STACK_MAXSIZE'' = Some p \<and>
        \<not> (\<exists>x. R_strtod p = Finite x \<and> 0 \<le> x \<and> x \<le> 1000) \<longrightarrow>
      jit_stack_size getenv R_strtod = ([JitStackInvalid], 64 * 1024 * 1024))"
  by (auto simp: jit_stack_size_def JIT_STACK_MAX_def split: double.splits option.splits)

theorem C6_jit_stack_size_witness:
  "jit_stack_size Map.empty (\<lambda>p. NaN) = ([], 67108864)
   \<and> jit_stack_size [''R_PCRE_JIT_STACK_MAXSIZE'' \<mapsto> ''1.5''] (\<lambda>p. Finite (3 / 2)) = ([], 1572864)
   \<and> jit_stack_size [''R_PCRE_JIT_STACK_MAXSIZE'' \<mapsto> ''2000''] (\<lambda>p. Finite 2000)
       = ([JitStackInvalid], 67108864)"
  using C6_jit_stack_size[where getenv = Map.empty and R_strtod = "\<lambda>p. NaN" and p = "[]" and x = 0]
    C6_jit_stack_size[where getenv = "[''R_PCRE_JIT_STACK_MAXSIZE'' \<mapsto> ''1.5'']" and p = "''1.5''"
       and R_strtod = "\<lambda>p. Finite (3 / 2)" and x = "3 / 2"]
    C6_jit_stack_size[where getenv = "[''R_PCRE_JIT_STACK_MAXSIZE'' \<mapsto> ''2000'']" and p = "''2000''"
       and R_strtod = "\<lambda>p. Finite 2000" and x = 0]
  by simp

text \<open>
  C9.  In a call of sub or gsub with \<open>fixed\<close> set, a pattern and a replacement of at least
  one element and a non-missing pattern that translates to the empty string, the call
  raises the error \<open>zero-length pattern\<close>, and the only warnings raised are those of the
  argument intake: no element of the text has been processed.  Without \<open>fixed\<close> no call
  raises this error.
\<close>

theorem C9_zero_length_pattern:
  "(na_false fixed \<and> pat \<noteq> [] \<and> rep \<noteq> [] \<and> pat ! 0 \<noteq> NA_STRING \<and>
    gsub_translate h (gsub_classify h (snd (do_gsub_flags igcase perl fixed bytes)) (pat ! 0) (rep ! 0) text)
       (pat ! 0) (rep ! 0) = Inr ([], srep) \<longrightarrow>
    do_gsub h global pat rep text igcase perl fixed bytes =
      Some (fst (do_gsub_flags igcase perl fixed bytes)
            @ (if length pat > 1 then [OnlyFirstUsed ''pattern''] else [])
            @ (if length rep > 1 then [OnlyFirstUsed ''replacement''] else []), Inl ZeroLengthPattern))
   \<and> (\<not> na_false fixed \<longrightarrow>
        (\<forall>ws. do_gsub h global pat rep text igcase perl fixed bytes \<noteq> Some (ws, Inl ZeroLengthPattern)))"
proof (intro conjI impI allI)
  assume a: "na_false fixed \<and> pat \<noteq> [] \<and> rep \<noteq> [] \<and> pat ! 0 \<noteq> NA_STRING \<and>
    gsub_translate h (gsub_classify h (snd (do_gsub_flags igcase perl fixed bytes)) (pat ! 0) (rep ! 0) text)
       (pat ! 0) (rep ! 0) = Inr ([], srep)"
  then have f: "fixed_opt (snd (do_gsub_flags igcase perl fixed bytes))" by (simp add: gsub_flags_fixed)
  from a show "do_gsub h global pat rep text igcase perl fixed bytes =
      Some (fst (do_gsub_flags igcase perl fixed bytes)
            @ (if length pat > 1 then [OnlyFirstUsed ''pattern''] else [])
            @ (if length rep > 1 then [OnlyFirstUsed ''replacement''] else []), Inl ZeroLengthPattern)"
    by (simp add: do_gsub_def do_gsub_run_def Let_def gsub_compile_fixed[OF f])
next
  fix ws
  assume "\<not> na_false fixed"
  then have f: "\<not> fixed_opt (snd (do_gsub_flags igcase perl fixed bytes))" by (simp add: gsub_flags_fixed)
  show "do_gsub h global pat rep text igcase perl fixed bytes \<noteq> Some (ws, Inl ZeroLengthPattern)"
    using f unfolding do_gsub_def do_gsub_run_def Let_def
    by (auto split: if_splits sum.splits prod.splits option.splits
          dest: gsub_translate_error gsub_compile_error gsub_elts_error)
qed

theorem C9_zero_length_pattern_witness:
  "do_gsub test_host True [CHARSXP '''' Ascii] [CHARSXP ''x'' Ascii] [CHARSXP ''abc'' Ascii]
      None None (Some True) None = Some ([], Inl ZeroLengthPattern)
   \<and> do_gsub test_host True [CHARSXP '''' Ascii] [CHARSXP ''x'' Ascii] [CHARSXP ''abc'' Ascii]
      None None None None \<noteq> Some ([], Inl ZeroLengthPattern)"
  using C9_zero_length_pattern[of "Some True" "[CHARSXP '''' Ascii]" "[CHARSXP ''x'' Ascii]" test_host
          None None None "[CHARSXP ''abc'' Ascii]" "''x''" True]
    C9_zero_length_pattern[of None "[CHARSXP '''' Ascii]" "[CHARSXP ''x'' Ascii]" test_host
          None None None "[CHARSXP ''abc'' Ascii]" "''x''" True]
  by (simp add: na_false_def do_gsub_flags_def gsub_classify_def gsub_translate_def test_host_def Let_def)

text \<open>
  C10.  In a call of grepRaw whose 1-based offset is greater than the length of the text
  (and is an \<open>int\<close>), the result is the integer vector of length zero, whatever the
  flags \<open>ignore.case\<close>, \<open>fixed\<close>, \<open>value\<close>, \<open>all\<close> and \<open>invert\<close>; the only warnings are
  those of the flags, so that no pattern is compiled or searched for.
\<close>

theorem C10_offset_beyond_text:
  assumes "int (length text) < offs" "offs \<le> INT_MAX"
  shows "do_grepraw h pat text offs igcase fixed value all invt
           = Some (fst (do_grepraw_flags igcase fixed value all invt), Inr (RInt []))"
proof -
  have "size_t_of offs = nat offs" using assms by (intro size_t_of_id) (simp_all add: INT_MAX_def)
  moreover have "nat offs > length text" "\<not> nat offs < 1" using assms by linarith+
  ultimately show ?thesis
    by (simp add: do_grepraw_def do_grepraw_run_def)
qed

theorem C10_offset_beyond_text_witness:
  "do_grepraw test_host [1] [255, 0, 1] 4 None (Some True) None (Some True) None = Some ([], Inr (RInt []))
   \<and> do_grepraw test_host [1] [255, 0, 1] 4 (Some True) None (Some True) None None = Some ([], Inr (RInt []))"
proof -
  have a: "int (length [255, 0, 1 :: Rbyte]) < 4" "(4::int) \<le> INT_MAX" by (simp_all add: INT_MAX_def)
  from C10_offset_beyond_text[OF a, of test_host "[1]" None "Some True" None "Some True" None]
       C10_offset_beyond_text[OF a, of test_host "[1]" "Some True" None "Some True" None None]
  show ?thesis by (simp add: do_grepraw_flags_def na_false_def)
qed





text \<open>
  C4.  The all-matches loops of gregexpr, for any pattern and so for one that matches the
  empty string at position 0, and any subject (shorter than \<open>2 ^ 31\<close>), provided the
  engine reports matches that lie inside the rest of the subject (and, for the Perl
  dialect, \<open>utf8clen\<close> is at least 1): the loop returns; it returns at most as many
  entries as the subject has characters, plus one, with as many match lengths; no
  warning about an infinite empty match is raised (so at most one).  In the loop over
  \<open>tre_regexecb\<close> the positions returned increase strictly: after an empty match the
  search offset has moved past it.
\<close>

theorem C4_gregexpr_terminates:
  "(tre_exec_ok exec \<and> length s < 2 ^ 31 \<longrightarrow>
      (\<exists>ms ls ws. gregexpr_Regexc exec s i rc0 = Some (ms, ls, ws) \<and>
         ms \<noteq> [] \<and> length ms \<le> length s + 1 \<and> length ls = length ms \<and>
         sorted_wrt (<) ms \<and> InfiniteEmptyMatch \<notin> set ws \<and>
         length (filter (\<lambda>w. w = InfiniteEmptyMatch) ws) \<le> 1))
   \<and> (pcre_match_ok h re t \<and> utf8clen_ok h \<longrightarrow>
      (\<exists>ms ls ws. R_pcre2_gregexpr h re t utf n = Some (ms, ls, ws) \<and>
         ms \<noteq> [] \<and> length ms \<le> length t + 1 \<and> length ls = length ms \<and>
         InfiniteEmptyMatch \<notin> set ws \<and>
         length (filter (\<lambda>w. w = InfiniteEmptyMatch) ws) \<le> 1))"
proof (rule conjI)
  show "tre_exec_ok exec \<and> length s < 2 ^ 31 \<longrightarrow>
      (\<exists>ms ls ws. gregexpr_Regexc exec s i rc0 = Some (ms, ls, ws) \<and>
         ms \<noteq> [] \<and> length ms \<le> length s + 1 \<and> length ls = length ms \<and>
         sorted_wrt (<) ms \<and> InfiniteEmptyMatch \<notin> set ws \<and>
         length (filter (\<lambda>w. w = InfiniteEmptyMatch) ws) \<le> 1)"
  proof (rule impI)
    assume a: "tre_exec_ok exec \<and> length s < 2 ^ 31"
    then have ok: "tre_exec_ok exec" and len: "length s < 2 ^ 31" by simp_all
    from gregexpr_Regexc_total[OF ok len, of i rc0] obtain ms ls ws where
      r: "gregexpr_Regexc exec s i rc0 = Some (ms, ls, ws)" and
      p: "greg_post s (ms, ls, ws)" and srt: "sorted_wrt (<) ms"
      by (metis fst_conv prod_cases3)
    from p have q: "ms \<noteq> []" "length ms \<le> length s + 1" "length ls = length ms"
      "InfiniteEmptyMatch \<notin> set ws" by (simp_all add: greg_post_def)
    from q(4) have "filter (\<lambda>w. w = InfiniteEmptyMatch) ws = []" by (auto simp: filter_empty_conv)
    with r q srt show "\<exists>ms ls ws. gregexpr_Regexc exec s i rc0 = Some (ms, ls, ws) \<and>
         ms \<noteq> [] \<and> length ms \<le> length s + 1 \<and> length ls = length ms \<and>
         sorted_wrt (<) ms \<and> InfiniteEmptyMatch \<notin> set ws \<and>
         length (filter (\<lambda>w. w = InfiniteEmptyMatch) ws) \<le> 1"
      by simp
  qed
  show "pcre_match_ok h re t \<and> utf8clen_ok h \<longrightarrow>
      (\<exists>ms ls ws. R_pcre2_gregexpr h re t utf n = Some (ms, ls, ws) \<and>
         ms \<noteq> [] \<and> length ms \<le> length t + 1 \<and> length ls = length ms \<and>
         InfiniteEmptyMatch \<notin> set ws \<and>
         length (filter (\<lambda>w. w = InfiniteEmptyMatch) ws) \<le> 1)"
  proof (rule impI)
    assume a: "pcre_match_ok h re t \<and> utf8clen_ok h"
    then have ok: "pcre_match_ok h re t" and uk: "utf8clen_ok h" by simp_all
    from R_pcre2_gregexpr_total[OF ok uk, of utf n] obtain ms ls ws where
      r: "R_pcre2_gregexpr h re t utf n = Some (ms, ls, ws)" and
      p: "greg_post t (ms, ls, ws)"
      by (metis prod_cases3)
    from p have q: "ms \<noteq> []" "length ms \<le> length t + 1" "length ls = length ms"
      "InfiniteEmptyMatch \<notin> set ws" by (simp_all add: greg_post_def)
    from q(4) have "filter (\<lambda>w. w = InfiniteEmptyMatch) ws = []" by (auto simp: filter_empty_conv)
    with r q show "\<exists>ms ls ws. R_pcre2_gregexpr h re t utf n = Some (ms, ls, ws) \<and>
         ms \<noteq> [] \<and> length ms \<le> length t + 1 \<and> length ls = length ms \<and>
         InfiniteEmptyMatch \<notin> set ws \<and>
         length (filter (\<lambda>w. w = InfiniteEmptyMatch) ws) \<le> 1"
      by simp
  qed
qed

theorem C4_gregexpr_terminates_witness:
  "gregexpr_Regexc (\<lambda>t e. test_tre [] t) ''ab'' 0 0 = Some ([1, 2], [0, 0], [])
   \<and> R_pcre2_gregexpr test_host \<lparr> pc_pattern = [], pc_utf = False, pc_caseless = False \<rparr> ''ab'' False 0
       = Some ([1, 2], [0, 0], [])"
proof -
  have u: "utf8clen_ok test_host" by (simp add: utf8clen_ok_def test_host_def)
  have l: "length ''ab'' < (2::nat) ^ 31" by simp
  have r1: "gregexpr_Regexc (\<lambda>t e. test_tre [] t) ''ab'' 0 0 = Some ([1, 2], [0, 0], [])"
    by (simp add: gregexpr_Regexc_def gregexpr_Regexc_loop.simps test_tre_def regmatch_at_def
          size_t_of_def REG_NOTBOL_def REG_ESPACE_def Let_def)
  have r2: "R_pcre2_gregexpr test_host \<lparr> pc_pattern = [], pc_utf = False, pc_caseless = False \<rparr> ''ab'' False 0
       = Some ([1, 2], [0, 0], [])"
    by (simp add: R_pcre2_gregexpr_def R_pcre2_gregexpr_loop.simps test_host_def test_pcre_def
          ovec_at_def ovector_extract_start_length_def R_pcre_exec_error_def Let_def)
  from C4_gregexpr_terminates[where exec = "\<lambda>t e. test_tre [] t" and s = "''ab''" and i = 0 and ?rc0.0 = 0
        and h = test_host and re = "\<lparr> pc_pattern = [], pc_utf = False, pc_caseless = False \<rparr>"
        and t = "''ab''" and utf = False and n = 0]
    test_tre_ok[of "[]"] test_pcre_ok u l r1 r2
  show ?thesis by simp
qed




end
